theory Spec2Isabelle
  imports Complex_Main
begin

section \<open>Python values and exceptions\<close>

text \<open>
  The services are Python. Floats are modelled as exact reals (no rounding of
  arithmetic, no NaN or infinity); a raised exception is the \<open>Inl\<close> of a sum.
\<close>

datatype exn = TypeError | ValueError | OverflowError | AttributeError | KeyError | ClientError

text \<open>\<open>try: body except (caught): handler\<close>\<close>

definition try_except :: "exn + 'a \<Rightarrow> (exn \<Rightarrow> bool) \<Rightarrow> (exn \<Rightarrow> exn + 'a) \<Rightarrow> exn + 'a" where
  "try_except body caught handler =
     (case body of Inr v \<Rightarrow> Inr v
      | Inl e \<Rightarrow> if caught e then handler e else Inl e)"

text \<open>\<open>except Exception\<close>: every modelled exception is an \<open>Exception\<close>.\<close>

definition any_Exception :: "exn \<Rightarrow> bool" where
  "any_Exception e = True"

definition bind :: "exn + 'a \<Rightarrow> ('a \<Rightarrow> exn + 'b) \<Rightarrow> exn + 'b" where
  "bind m f = (case m of Inl e \<Rightarrow> Inl e | Inr v \<Rightarrow> f v)"

text \<open>
  An argument of \<open>calculate_risk_score\<close>: \<open>None\<close>, an int (unbounded; Python's \<open>bool\<close> is
  the ints 0 and 1), a float or a string.
\<close>

datatype pyval = PNone | PInt int | PFloat real | PStr string

text \<open>
  The largest float is \<open>2 ^ 1024 - 2 ^ 971\<close>; a number of magnitude \<open>2 ^ 1024 - 2 ^ 970\<close> or
  more rounds beyond it. Converting such an int to a float, or dividing two ints with such
  a quotient, raises \<open>OverflowError\<close>.
\<close>

definition float_overflows :: "real \<Rightarrow> bool" where
  "float_overflows x = (2 ^ 1024 - 2 ^ 970 \<le> \<bar>x\<bar>)"

text \<open>
  \<open>x * k\<close> for an int literal \<open>k\<close>: an int stays an int, a float is multiplied, a string
  is repeated.
\<close>

fun py_mul_int :: "pyval \<Rightarrow> int \<Rightarrow> exn + pyval" where
  "py_mul_int (PInt i) k = Inr (PInt (i * k))"
| "py_mul_int (PFloat v) k = Inr (PFloat (v * of_int k))"
| "py_mul_int (PStr s) k = Inr (PStr (concat (replicate (nat k) s)))"
| "py_mul_int PNone k = Inl TypeError"

text \<open>
  \<open>x / k\<close> for a non-zero int literal \<open>k\<close>: the true division of two ints raises when the
  quotient is beyond float range.
\<close>

fun py_div_int :: "pyval \<Rightarrow> int \<Rightarrow> exn + real" where
  "py_div_int (PInt i) k =
     (if float_overflows (of_int i / of_int k) then Inl OverflowError
      else Inr (of_int i / of_int k))"
| "py_div_int (PFloat v) k = Inr (v / of_int k)"
| "py_div_int (PStr s) k = Inl TypeError"
| "py_div_int PNone k = Inl TypeError"

text \<open>
  \<open>min(k, x)\<close> for an int literal \<open>k\<close>: Python keeps \<open>k\<close> unless \<open>x < k\<close>; the result is
  the object chosen, so an int stays an int.
\<close>

fun py_min_num :: "int \<Rightarrow> pyval \<Rightarrow> exn + pyval" where
  "py_min_num k (PInt i) = Inr (PInt (if i < k then i else k))"
| "py_min_num k (PFloat v) = Inr (if v < of_int k then PFloat v else PInt k)"
| "py_min_num k (PStr s) = Inl TypeError"
| "py_min_num k PNone = Inl TypeError"

text \<open>\<open>x * k\<close> for a float literal \<open>k\<close>: an int is converted to a float first.\<close>

fun py_mul_float :: "pyval \<Rightarrow> real \<Rightarrow> exn + real" where
  "py_mul_float (PInt i) k =
     (if float_overflows (of_int i) then Inl OverflowError else Inr (of_int i * k))"
| "py_mul_float (PFloat v) k = Inr (v * k)"
| "py_mul_float (PStr s) k = Inl TypeError"
| "py_mul_float PNone k = Inl TypeError"

text \<open>\<open>max(k, x)\<close> on numbers: Python keeps \<open>k\<close> unless \<open>x > k\<close>.\<close>

definition py_max :: "real \<Rightarrow> real \<Rightarrow> real" where
  "py_max k x = (if k < x then x else k)"

definition py_min :: "real \<Rightarrow> real \<Rightarrow> real" where
  "py_min k x = (if x < k then x else k)"

section \<open>helpers.py: risk score\<close>

text \<open>
  The handler of \<open>calculate_risk_score\<close> names \<open>TypeError\<close> and \<open>ValueError\<close> only: an
  \<open>OverflowError\<close> of the arithmetic leaves the function.
\<close>

definition calculate_risk_score_body :: "pyval \<Rightarrow> pyval \<Rightarrow> pyval \<Rightarrow> exn + real" where
  "calculate_risk_score_body volatility liquidity protocol_age =
     bind (py_mul_int volatility 10) (\<lambda>v10.
     bind (py_min_num 10 v10) (\<lambda>vol_score.
     bind (py_div_int liquidity 1000000) (\<lambda>l.
     let liq_score = py_max 0 (10 - l) in
     bind (py_div_int protocol_age 30) (\<lambda>a.
     let age_score = py_max 0 (10 - a) in
     bind (py_mul_float vol_score 0.5) (\<lambda>vol_part.
     let risk_score = vol_part + (liq_score * 0.3) + (age_score * 0.2)
     in Inr (py_min 10 (py_max 0 risk_score)))))))"

definition calculate_risk_score :: "pyval \<Rightarrow> pyval \<Rightarrow> pyval \<Rightarrow> exn + real" where
  "calculate_risk_score volatility liquidity protocol_age =
     try_except (calculate_risk_score_body volatility liquidity protocol_age)
       (\<lambda>e. e = TypeError \<or> e = ValueError) (\<lambda>e. Inr 5)"



fun is_numeric :: "pyval \<Rightarrow> bool" where
  "is_numeric (PInt i) = True"
| "is_numeric (PFloat v) = True"
| "is_numeric (PStr s) = False"
| "is_numeric PNone = False"





section \<open>helpers.py: the result cache\<close>

text \<open>
  \<open>_cache\<close> maps a key to \<open>{'data': ..., 'expires': ...}\<close>. Each call of
  \<open>time.time()\<close> is an argument \<open>now\<close> of the function that makes it.
\<close>

record 'v cache_entry =
  data :: 'v
  expires :: real

type_synonym ('k, 'v) cache = "'k \<rightharpoonup> 'v cache_entry"

definition cache_result :: "real \<Rightarrow> 'k \<Rightarrow> 'v \<Rightarrow> real \<Rightarrow> ('k, 'v) cache \<Rightarrow> ('k, 'v) cache" where
  "cache_result now key result timeout c =
     c(key \<mapsto> \<lparr>data = result, expires = now + timeout\<rparr>)"

text \<open>Returns the value read (\<open>None\<close> for Python's \<open>None\<close>) and the cache left behind.\<close>

definition get_cached_result :: "real \<Rightarrow> 'k \<Rightarrow> ('k, 'v) cache \<Rightarrow> 'v option \<times> ('k, 'v) cache" where
  "get_cached_result now key c =
     (case c key of
        Some cache_entry \<Rightarrow>
          if now < expires cache_entry then (Some (data cache_entry), c)
          else (None, c(key := None))
      | None \<Rightarrow> (None, c))"

section \<open>Python strings and number formatting\<close>

definition digit_char :: "int \<Rightarrow> char" where
  "digit_char n = ''0123456789'' ! nat (n mod 10)"

text \<open>
  The decimal text of an integer that is not negative, as \<open>str(n)\<close> and the format
  codes print it.
\<close>

function show_nat :: "int \<Rightarrow> string" where
  "show_nat n = (if n < 10 then [digit_char n] else show_nat (n div 10) @ [digit_char n])"
  by pat_completeness auto
termination
  by (relation "measure nat") auto

declare show_nat.simps [simp del]

definition show_int :: "int \<Rightarrow> string" where
  "show_int i = (if i < 0 then ''-'' @ show_nat (- i) else show_nat i)"

text \<open>
  The format codes round to the nearest value with the requested number of decimals, a
  tie going to the even neighbour.
\<close>

definition round_half_even :: "real \<Rightarrow> int" where
  "round_half_even x =
     (let f = \<lfloor>x\<rfloor>; d = x - of_int f
      in if d < 1 / 2 then f else if 1 / 2 < d then f + 1 else if even f then f else f + 1)"

definition pad_left :: "nat \<Rightarrow> string \<Rightarrow> string" where
  "pad_left n s = replicate (n - length s) (CHR ''0'') @ s"

text \<open>\<open>,\<close> in a format code: groups of three digits, from the right.\<close>

fun group3 :: "string \<Rightarrow> string" where
  "group3 (a # b # c # d # rest) = a # b # c # CHR '','' # group3 (d # rest)"
| "group3 s = s"

definition commas :: "string \<Rightarrow> string" where
  "commas s = rev (group3 (rev s))"

text \<open>
  \<open>f"{v:.<d>f}"\<close> and \<open>f"{v:,.<d>f}"\<close> on a number: the sign of \<open>v\<close> is kept even
  when the digits round to zero.
\<close>

definition fixed :: "bool \<Rightarrow> nat \<Rightarrow> real \<Rightarrow> string" where
  "fixed grouped decimals v =
     (let q = round_half_even (\<bar>v\<bar> * 10 ^ decimals);
          ip = show_nat (q div 10 ^ decimals);
          fp = pad_left decimals (show_nat (q mod 10 ^ decimals))
      in (if v < 0 then ''-'' else [])
         @ (if grouped then commas ip else ip)
         @ (if decimals = 0 then [] else ''.'' @ fp))"

text \<open>
  \<open>format_currency\<close> and \<open>format_percentage\<close> with the default two decimals; the
  argument is a number or \<open>None\<close>.
\<close>

definition format_currency :: "real option \<Rightarrow> string" where
  "format_currency amount =
     (case amount of None \<Rightarrow> ''N/A'' | Some a \<Rightarrow> ''$'' @ fixed True 2 a)"

definition format_percentage :: "real option \<Rightarrow> string" where
  "format_percentage v =
     (case v of None \<Rightarrow> ''N/A'' | Some a \<Rightarrow> fixed False 2 a @ ''%'')"

text \<open>\<open>str(x)\<close> inside an f-string, for a string or \<open>None\<close>.\<close>

definition str_of :: "string option \<Rightarrow> string" where
  "str_of x = (case x of None \<Rightarrow> ''None'' | Some s \<Rightarrow> s)"

text \<open>\<open>s.replace('%', '')\<close>\<close>

definition strip_percent :: "string \<Rightarrow> string" where
  "strip_percent s = filter (\<lambda>c. c \<noteq> CHR ''%'') s"

text \<open>
  \<open>float(s)\<close> on fixed-point decimal text: an optional sign, digits, an optional point
  and digits, at least one digit in all. This is every text the format codes above
  produce; the other spellings \<open>float\<close> accepts (exponents, underscores, surrounding
  blanks, \<open>inf\<close>, \<open>nan\<close>) are outside the model and read as \<open>ValueError\<close>.
\<close>

definition digit_val :: "char \<Rightarrow> int option" where
  "digit_val c = map_of (zip ''0123456789'' [0, 1, 2, 3, 4, 5, 6, 7, 8, 9]) c"

fun digits_val :: "string \<Rightarrow> int \<Rightarrow> int option" where
  "digits_val [] acc = Some acc"
| "digits_val (c # cs) acc =
     (case digit_val c of None \<Rightarrow> None | Some d \<Rightarrow> digits_val cs (10 * acc + d))"

definition unsigned_float :: "string \<Rightarrow> exn + real" where
  "unsigned_float s =
     (let ip = takeWhile (\<lambda>c. c \<noteq> CHR ''.'') s;
          fp = drop 1 (dropWhile (\<lambda>c. c \<noteq> CHR ''.'') s)
      in if ip = [] \<and> fp = [] then Inl ValueError
         else (case (digits_val ip 0, digits_val fp 0) of
                 (Some i, Some f) \<Rightarrow> Inr (of_int i + of_int f / 10 ^ length fp)
               | _ \<Rightarrow> Inl ValueError))"

definition py_float :: "string \<Rightarrow> exn + real" where
  "py_float s =
     (case s of
        [] \<Rightarrow> Inl ValueError
      | c # r \<Rightarrow>
          if c = CHR ''-'' then bind (unsigned_float r) (\<lambda>x. Inr (- x))
          else if c = CHR ''+'' then unsigned_float r
          else unsigned_float s)"

text \<open>
  \<open>s.lower()\<close> and \<open>s.upper()\<close> on the ASCII letters; other characters are left as
  they are.
\<close>

definition lower_char :: "char \<Rightarrow> char" where
  "lower_char c =
     (case map_of (zip ''ABCDEFGHIJKLMNOPQRSTUVWXYZ'' ''abcdefghijklmnopqrstuvwxyz'') c of
        Some l \<Rightarrow> l | None \<Rightarrow> c)"

definition upper_char :: "char \<Rightarrow> char" where
  "upper_char c =
     (case map_of (zip ''abcdefghijklmnopqrstuvwxyz'' ''ABCDEFGHIJKLMNOPQRSTUVWXYZ'') c of
        Some u \<Rightarrow> u | None \<Rightarrow> c)"

definition lower :: "string \<Rightarrow> string" where
  "lower s = map lower_char s"

definition upper :: "string \<Rightarrow> string" where
  "upper s = map upper_char s"

text \<open>\<open>s.lower()\<close> and \<open>s.upper()\<close> where \<open>s\<close> may be \<open>None\<close>.\<close>

definition py_lower :: "string option \<Rightarrow> exn + string" where
  "py_lower x = (case x of None \<Rightarrow> Inl AttributeError | Some s \<Rightarrow> Inr (lower s))"

definition py_upper :: "string option \<Rightarrow> exn + string" where
  "py_upper x = (case x of None \<Rightarrow> Inl AttributeError | Some s \<Rightarrow> Inr (upper s))"

section \<open>Comparisons, sorting and slicing\<close>

text \<open>\<open>x < k\<close> and \<open>x > k\<close> where \<open>x\<close> is a number or \<open>None\<close> and \<open>k\<close> a number.\<close>

definition py_lt :: "real option \<Rightarrow> real \<Rightarrow> exn + bool" where
  "py_lt x k = (case x of None \<Rightarrow> Inl TypeError | Some v \<Rightarrow> Inr (v < k))"

definition py_gt :: "real option \<Rightarrow> real \<Rightarrow> exn + bool" where
  "py_gt x k = (case x of None \<Rightarrow> Inl TypeError | Some v \<Rightarrow> Inr (k < v))"

text \<open>\<open>x * k\<close> for a float literal \<open>k\<close> and a number \<open>x\<close> of a JSON object.\<close>

definition py_times :: "real option \<Rightarrow> real \<Rightarrow> exn + real" where
  "py_times x k = (case x of None \<Rightarrow> Inl TypeError | Some v \<Rightarrow> Inr (v * k))"

text \<open>
  A number of a JSON object, or \<open>None\<close>, as an argument of \<open>calculate_risk_score\<close>: the
  numbers of the providers' JSON are modelled as floats.
\<close>

definition num_val :: "real option \<Rightarrow> pyval" where
  "num_val x = (case x of None \<Rightarrow> PNone | Some v \<Rightarrow> PFloat v)"

text \<open>
  \<open>sorted(xs, key=..., reverse=True)\<close> on numeric keys: descending, elements of equal
  key in their original order.
\<close>

fun insort_desc :: "('a \<Rightarrow> real) \<Rightarrow> 'a \<Rightarrow> 'a list \<Rightarrow> 'a list" where
  "insort_desc key x [] = [x]"
| "insort_desc key x (y # ys) =
     (if key x < key y then y # insort_desc key x ys else x # y # ys)"

fun sort_desc :: "('a \<Rightarrow> real) \<Rightarrow> 'a list \<Rightarrow> 'a list" where
  "sort_desc key [] = []"
| "sort_desc key (x # xs) = insort_desc key x (sort_desc key xs)"

definition key_or_0 :: "('a \<Rightarrow> real option) \<Rightarrow> 'a \<Rightarrow> real" where
  "key_or_0 key x = (case key x of None \<Rightarrow> 0 | Some v \<Rightarrow> v)"

text \<open>
  The keys are numbers or \<open>None\<close>. A list of at most one element is returned without
  any comparison; in a longer one every element is compared with another, and \<open>None\<close>
  in a comparison raises TypeError.
\<close>

definition py_sorted_desc :: "('a \<Rightarrow> real option) \<Rightarrow> 'a list \<Rightarrow> exn + 'a list" where
  "py_sorted_desc key xs =
     (if length xs \<le> 1 then Inr xs
      else if list_ex (\<lambda>x. key x = None) xs then Inl TypeError
      else Inr (sort_desc (key_or_0 key) xs))"

text \<open>\<open>xs[:n]\<close> and \<open>xs[-3:]\<close>: a negative bound counts from the end.\<close>

definition slice_to :: "int \<Rightarrow> 'a list \<Rightarrow> 'a list" where
  "slice_to n xs =
     (if 0 \<le> n then take (nat n) xs else take (length xs - nat (- n)) xs)"

definition last3 :: "'a list \<Rightarrow> 'a list" where
  "last3 xs = drop (length xs - 3) xs"

section \<open>JSON objects of the upstream providers\<close>

text \<open>
  An upstream object is modelled at its schema: a key is absent, or holds \<open>null\<close>, or
  holds a value of the key's type. \<open>d.get(k, default)\<close> gives the default only when the
  key is absent; its result is a value or \<open>None\<close>.
\<close>

datatype 'a field = Absent | Null | Val 'a

fun dget :: "'a field \<Rightarrow> 'a \<Rightarrow> 'a option" where
  "dget Absent dflt = Some dflt"
| "dget Null dflt = None"
| "dget (Val v) dflt = Some v"

text \<open>\<open>d.get(k)\<close>\<close>

fun dget_none :: "'a field \<Rightarrow> 'a option" where
  "dget_none Absent = None"
| "dget_none Null = None"
| "dget_none (Val v) = Some v"

text \<open>
  What the environment supplies during one call of an operation: the clock at the cache
  lookup, the clock at the cache store, and the provider's answer to the request. The
  answer is a transport failure, or a status with the body decoded by
  \<open>response.json()\<close> (\<open>None\<close> when the body is not JSON of the endpoint's shape).
\<close>

datatype 'b reply = Transport_error | Reply nat "'b option"

record 'b env =
  t_get :: real
  t_put :: real
  reply :: "'b reply"

text \<open>
  \<open>async with session.get(url) as response\<close>, then \<open>await response.json()\<close> when the
  status is 200: the decoded body, \<open>None\<close> for another status, or an exception.
\<close>

definition fetch_json :: "'b reply \<Rightarrow> exn + 'b option" where
  "fetch_json r =
     (case r of
        Transport_error \<Rightarrow> Inl ClientError
      | Reply status body \<Rightarrow>
          if status = 200 then (case body of None \<Rightarrow> Inl ClientError | Some d \<Rightarrow> Inr (Some d))
          else Inr None)"

text \<open>\<open>Config\<close> is not among the sources; the operations take its cache lifetime.\<close>

record config =
  CACHE_TIMEOUT :: real

text \<open>
  \<open>for x in xs\<close> with a body that may raise, and a list comprehension with a condition
  that may raise: the first exception ends the loop.
\<close>

fun map_exn :: "('a \<Rightarrow> exn + 'b) \<Rightarrow> 'a list \<Rightarrow> exn + 'b list" where
  "map_exn f [] = Inr []"
| "map_exn f (x # xs) = bind (f x) (\<lambda>y. bind (map_exn f xs) (\<lambda>ys. Inr (y # ys)))"

fun filter_exn :: "('a \<Rightarrow> exn + bool) \<Rightarrow> 'a list \<Rightarrow> exn + 'a list" where
  "filter_exn P [] = Inr []"
| "filter_exn P (x # xs) =
     bind (P x) (\<lambda>keep. bind (filter_exn P xs) (\<lambda>rest. Inr (if keep then x # rest else rest)))"

text \<open>\<open>if cached_data:\<close> on a list or \<open>None\<close>: an empty list is false.\<close>

definition truthy_list :: "'a list option \<Rightarrow> 'a list option" where
  "truthy_list cached_data =
     (case cached_data of None \<Rightarrow> None | Some xs \<Rightarrow> if xs = [] then None else Some xs)"

section \<open>yield_service.py\<close>

text \<open>
  A pool of the yield provider's listing (\<open>data['data']\<close>), with the keys the service
  reads. \<open>risk_score\<close> is the key \<open>get_yield_recommendations\<close> writes into the pool.
\<close>

record pool =
  pool_name :: "string field"
  pool_project :: "string field"
  pool_chain :: "string field"
  pool_apy :: "real field"
  pool_tvlUsd :: "real field"
  pool_volatility :: "real field"
  pool_risk_score :: "real field"

text \<open>The records returned: by \<open>get_top_yields\<close> and \<open>get_yield_recommendations\<close>,\<close>

record yield_row =
  row_name :: "string option"
  row_protocol :: "string option"
  row_chain :: "string option"
  row_apy :: string
  row_tvl :: string
  row_risk_score :: string
  row_url :: string

text \<open>by \<open>get_yield_by_protocol\<close>,\<close>

record protocol_row =
  prow_name :: "string option"
  prow_chain :: "string option"
  prow_apy :: string
  prow_tvl :: string
  prow_url :: string

text \<open>and by \<open>get_yield_by_chain\<close>.\<close>

record chain_row =
  crow_name :: "string option"
  crow_protocol :: "string option"
  crow_apy :: string
  crow_tvl :: string
  crow_url :: string

text \<open>
  \<open>_cache\<close> is one dictionary. Every caching operation writes and reads keys that begin
  with its own prefix (\<open>top_yields_\<close>, \<open>protocol_yields_\<close>, \<open>chain_yields_\<close>,
  \<open>token_price_\<close>, \<open>market_sentiment\<close>, \<open>token_sentiment_\<close>), and no key of one
  operation is a key of another: the dictionary is the disjoint union of one part per
  operation, and each operation below is given its own part.
\<close>

subsection \<open>get_top_yields\<close>

definition top_yields_key :: "int \<Rightarrow> int \<Rightarrow> string option \<Rightarrow> string" where
  "top_yields_key limit min_tvl chain =
     ''top_yields_'' @ show_int limit @ ''_'' @ show_int min_tvl @ ''_'' @ str_of chain"

text \<open>\<open>if chain and ...\<close>: \<open>None\<close> and the empty string are false.\<close>

definition chain_given :: "string option \<Rightarrow> bool" where
  "chain_given chain = (case chain of None \<Rightarrow> False | Some c \<Rightarrow> c \<noteq> [])"

fun filter_top :: "int \<Rightarrow> string option \<Rightarrow> pool list \<Rightarrow> exn + pool list" where
  "filter_top min_tvl chain [] = Inr []"
| "filter_top min_tvl chain (pool # pools) =
     bind (py_lt (dget (pool_tvlUsd pool) 0) (of_int min_tvl)) (\<lambda>too_low.
       if too_low then filter_top min_tvl chain pools
       else if chain_given chain \<and> dget_none (pool_chain pool) \<noteq> chain
       then filter_top min_tvl chain pools
       else bind (filter_top min_tvl chain pools) (\<lambda>rest. Inr (pool # rest)))"

definition apy_key :: "pool \<Rightarrow> real option" where
  "apy_key x = dget (pool_apy x) 0"

definition top_row :: "pool \<Rightarrow> exn + yield_row" where
  "top_row pool =
     (let volatility = dget (pool_volatility pool) 0.5;
          liquidity = dget (pool_tvlUsd pool) 0;
          protocol_age = 365
      in bind (calculate_risk_score (num_val volatility) (num_val liquidity) (PInt protocol_age))
           (\<lambda>risk_score. Inr
             \<lparr>row_name = dget (pool_name pool) ''Unknown'',
              row_protocol = dget (pool_project pool) ''Unknown'',
              row_chain = dget (pool_chain pool) ''Unknown'',
              row_apy = format_percentage (dget (pool_apy pool) 0),
              row_tvl = format_currency (dget (pool_tvlUsd pool) 0),
              row_risk_score = fixed False 1 risk_score @ ''/10'',
              row_url = ''https://defillama.com/yields?project=''
                        @ str_of (dget (pool_project pool) [])\<rparr>))"

text \<open>The pools chosen from a listing, and the records made of them.\<close>

definition top_pools :: "int \<Rightarrow> int \<Rightarrow> string option \<Rightarrow> pool list \<Rightarrow> exn + pool list" where
  "top_pools limit min_tvl chain pools =
     bind (filter_top min_tvl chain pools) (\<lambda>filtered_pools.
     bind (py_sorted_desc apy_key filtered_pools) (\<lambda>sorted_pools.
     Inr (slice_to limit sorted_pools)))"

definition top_yields_results :: "int \<Rightarrow> int \<Rightarrow> string option \<Rightarrow> pool list \<Rightarrow> exn + yield_row list" where
  "top_yields_results limit min_tvl chain pools =
     bind (top_pools limit min_tvl chain pools) (map_exn top_row)"

definition get_top_yields ::
  "config \<Rightarrow> pool list env \<Rightarrow> int \<Rightarrow> int \<Rightarrow> string option \<Rightarrow> (string, yield_row list) cache
   \<Rightarrow> exn + (yield_row list \<times> (string, yield_row list) cache)" where
  "get_top_yields cfg e limit min_tvl chain c =
     (let cache_key = top_yields_key limit min_tvl chain;
          (cached_data, c1) = get_cached_result (t_get e) cache_key c
      in case truthy_list cached_data of
           Some rows \<Rightarrow> Inr (rows, c1)
         | None \<Rightarrow>
             try_except
               (bind (fetch_json (reply e)) (\<lambda>data.
                  case data of
                    Some pools \<Rightarrow>
                      bind (top_yields_results limit min_tvl chain pools) (\<lambda>results.
                        Inr (results,
                             cache_result (t_put e) cache_key results (CACHE_TIMEOUT cfg) c1))
                  | None \<Rightarrow> Inr ([], c1)))
               any_Exception (\<lambda>ex. Inr ([], c1)))"

subsection \<open>get_yield_by_protocol and get_yield_by_chain\<close>

definition protocol_yields_key :: "string \<Rightarrow> int \<Rightarrow> string" where
  "protocol_yields_key protocol_name limit =
     ''protocol_yields_'' @ protocol_name @ ''_'' @ show_int limit"

definition protocol_row :: "string \<Rightarrow> pool \<Rightarrow> protocol_row" where
  "protocol_row protocol_name pool =
     \<lparr>prow_name = dget (pool_name pool) ''Unknown'',
      prow_chain = dget (pool_chain pool) ''Unknown'',
      prow_apy = format_percentage (dget (pool_apy pool) 0),
      prow_tvl = format_currency (dget (pool_tvlUsd pool) 0),
      prow_url = ''https://defillama.com/yields?project='' @ protocol_name\<rparr>"

definition protocol_yields_results :: "string \<Rightarrow> int \<Rightarrow> pool list \<Rightarrow> exn + protocol_row list" where
  "protocol_yields_results protocol_name limit pools =
     bind (filter_exn (\<lambda>p. bind (py_lower (dget (pool_project p) []))
                              (\<lambda>project. Inr (project = lower protocol_name))) pools)
       (\<lambda>protocol_pools.
     bind (py_sorted_desc apy_key protocol_pools) (\<lambda>sorted_pools.
     Inr (map (protocol_row protocol_name) (slice_to limit sorted_pools))))"

definition get_yield_by_protocol ::
  "config \<Rightarrow> pool list env \<Rightarrow> string \<Rightarrow> int \<Rightarrow> (string, protocol_row list) cache
   \<Rightarrow> exn + (protocol_row list \<times> (string, protocol_row list) cache)" where
  "get_yield_by_protocol cfg e protocol_name limit c =
     (let cache_key = protocol_yields_key protocol_name limit;
          (cached_data, c1) = get_cached_result (t_get e) cache_key c
      in case truthy_list cached_data of
           Some rows \<Rightarrow> Inr (rows, c1)
         | None \<Rightarrow>
             try_except
               (bind (fetch_json (reply e)) (\<lambda>data.
                  case data of
                    Some pools \<Rightarrow>
                      bind (protocol_yields_results protocol_name limit pools) (\<lambda>results.
                        Inr (results,
                             cache_result (t_put e) cache_key results (CACHE_TIMEOUT cfg) c1))
                  | None \<Rightarrow> Inr ([], c1)))
               any_Exception (\<lambda>ex. Inr ([], c1)))"

definition chain_yields_key :: "string \<Rightarrow> int \<Rightarrow> string" where
  "chain_yields_key chain_name limit =
     ''chain_yields_'' @ chain_name @ ''_'' @ show_int limit"

definition chain_row :: "string \<Rightarrow> pool \<Rightarrow> chain_row" where
  "chain_row chain_name pool =
     \<lparr>crow_name = dget (pool_name pool) ''Unknown'',
      crow_protocol = dget (pool_project pool) ''Unknown'',
      crow_apy = format_percentage (dget (pool_apy pool) 0),
      crow_tvl = format_currency (dget (pool_tvlUsd pool) 0),
      crow_url = ''https://defillama.com/yields?chain='' @ chain_name\<rparr>"

definition chain_yields_results :: "string \<Rightarrow> int \<Rightarrow> pool list \<Rightarrow> exn + chain_row list" where
  "chain_yields_results chain_name limit pools =
     bind (filter_exn (\<lambda>p. bind (py_lower (dget (pool_chain p) []))
                              (\<lambda>chain. Inr (chain = lower chain_name))) pools)
       (\<lambda>chain_pools.
     bind (py_sorted_desc apy_key chain_pools) (\<lambda>sorted_pools.
     Inr (map (chain_row chain_name) (slice_to limit sorted_pools))))"

definition get_yield_by_chain ::
  "config \<Rightarrow> pool list env \<Rightarrow> string \<Rightarrow> int \<Rightarrow> (string, chain_row list) cache
   \<Rightarrow> exn + (chain_row list \<times> (string, chain_row list) cache)" where
  "get_yield_by_chain cfg e chain_name limit c =
     (let cache_key = chain_yields_key chain_name limit;
          (cached_data, c1) = get_cached_result (t_get e) cache_key c
      in case truthy_list cached_data of
           Some rows \<Rightarrow> Inr (rows, c1)
         | None \<Rightarrow>
             try_except
               (bind (fetch_json (reply e)) (\<lambda>data.
                  case data of
                    Some pools \<Rightarrow>
                      bind (chain_yields_results chain_name limit pools) (\<lambda>results.
                        Inr (results,
                             cache_result (t_put e) cache_key results (CACHE_TIMEOUT cfg) c1))
                  | None \<Rightarrow> Inr ([], c1)))
               any_Exception (\<lambda>ex. Inr ([], c1)))"

subsection \<open>get_yield_comparison\<close>

record comparison =
  protocol1 :: string
  protocol1_avg_apy :: string
  protocol1_pools :: nat
  protocol2 :: string
  protocol2_avg_apy :: string
  protocol2_pools :: nat
  difference :: string
  winner :: string

text \<open>
  The dictionary returned: the comparison, or \<open>protocol1\<close>, \<open>protocol2\<close> and \<open>error\<close>
  (the exception stands for its message).
\<close>

datatype compared = Compared comparison | Compare_failed string string exn

text \<open>
  \<open>sum([float(p['apy'].replace('%', '')) for p in ys]) / len(ys) if ys else 0\<close>
\<close>

definition mean_apy :: "protocol_row list \<Rightarrow> exn + real" where
  "mean_apy ys =
     (if ys = [] then Inr 0
      else bind (map_exn (\<lambda>p. py_float (strip_percent (prow_apy p))) ys)
             (\<lambda>vs. Inr (sum_list vs / real (length ys))))"

definition compare_means ::
  "string \<Rightarrow> protocol_row list \<Rightarrow> string \<Rightarrow> protocol_row list \<Rightarrow> exn + comparison" where
  "compare_means p1 protocol1_yields p2 protocol2_yields =
     bind (mean_apy protocol1_yields) (\<lambda>avg1.
     bind (mean_apy protocol2_yields) (\<lambda>avg2.
     Inr \<lparr>protocol1 = p1,
          protocol1_avg_apy = format_percentage (Some avg1),
          protocol1_pools = length protocol1_yields,
          protocol2 = p2,
          protocol2_avg_apy = format_percentage (Some avg2),
          protocol2_pools = length protocol2_yields,
          difference = format_percentage (Some (avg1 - avg2)),
          winner = (if avg2 < avg1 then p1 else p2)\<rparr>))"

text \<open>
  The two \<open>get_yield_by_protocol\<close> calls are made one after the other, each with the
  environment of its own call; both use the default \<open>limit=5\<close>.
\<close>

definition get_yield_comparison ::
  "config \<Rightarrow> pool list env \<Rightarrow> pool list env \<Rightarrow> string \<Rightarrow> string
   \<Rightarrow> (string, protocol_row list) cache
   \<Rightarrow> exn + (compared \<times> (string, protocol_row list) cache)" where
  "get_yield_comparison cfg e1 e2 p1 p2 c =
     bind (get_yield_by_protocol cfg e1 p1 5 c) (\<lambda>(protocol1_yields, c1).
     bind (get_yield_by_protocol cfg e2 p2 5 c1) (\<lambda>(protocol2_yields, c2).
     try_except
       (bind (compare_means p1 protocol1_yields p2 protocol2_yields)
          (\<lambda>r. Inr (Compared r, c2)))
       any_Exception (\<lambda>ex. Inr (Compare_failed p1 p2 ex, c2))))"

subsection \<open>get_yield_recommendations\<close>

definition risk_params :: "(string \<times> int \<times> real) list" where
  "risk_params =
     [(''low'', 10000000, 0.3), (''medium'', 1000000, 0.6), (''high'', 100000, 1.0)]"

text \<open>\<open>risk_params.get(risk_tolerance.lower(), risk_params['medium'])\<close>\<close>

definition params_for :: "string \<Rightarrow> int \<times> real" where
  "params_for risk_tolerance =
     (case map_of risk_params (lower risk_tolerance) of
        Some p \<Rightarrow> p
      | None \<Rightarrow> (1000000, 0.6))"

fun filter_recommended :: "int \<Rightarrow> real \<Rightarrow> pool list \<Rightarrow> exn + pool list" where
  "filter_recommended min_tvl max_volatility [] = Inr []"
| "filter_recommended min_tvl max_volatility (pool # pools) =
     bind (py_lt (dget (pool_tvlUsd pool) 0) (of_int min_tvl)) (\<lambda>too_low.
       if too_low then filter_recommended min_tvl max_volatility pools
       else bind (py_gt (dget (pool_volatility pool) 0.5) max_volatility) (\<lambda>too_volatile.
         if too_volatile then filter_recommended min_tvl max_volatility pools
         else
           let volatility = dget (pool_volatility pool) 0.5;
               liquidity = dget (pool_tvlUsd pool) 0;
               protocol_age = 365
           in bind (calculate_risk_score (num_val volatility) (num_val liquidity)
                      (PInt protocol_age)) (\<lambda>risk_score.
              bind (filter_recommended min_tvl max_volatility pools) (\<lambda>rest.
              Inr (pool\<lparr>pool_risk_score := Val risk_score\<rparr> # rest)))))"

text \<open>\<open>f"{pool.get('risk_score', 5):.1f}/10"\<close> raises on \<open>None\<close>.\<close>

definition recommended_row :: "pool \<Rightarrow> exn + yield_row" where
  "recommended_row pool =
     (case dget (pool_risk_score pool) 5 of
        None \<Rightarrow> Inl TypeError
      | Some risk_score \<Rightarrow> Inr
          \<lparr>row_name = dget (pool_name pool) ''Unknown'',
           row_protocol = dget (pool_project pool) ''Unknown'',
           row_chain = dget (pool_chain pool) ''Unknown'',
           row_apy = format_percentage (dget (pool_apy pool) 0),
           row_tvl = format_currency (dget (pool_tvlUsd pool) 0),
           row_risk_score = fixed False 1 risk_score @ ''/10'',
           row_url = ''https://defillama.com/yields?project=''
                     @ str_of (dget (pool_project pool) [])\<rparr>)"

definition recommended_pools :: "int \<times> real \<Rightarrow> int \<Rightarrow> pool list \<Rightarrow> exn + pool list" where
  "recommended_pools params limit pools =
     bind (filter_recommended (fst params) (snd params) pools) (\<lambda>filtered_pools.
     bind (py_sorted_desc apy_key filtered_pools) (\<lambda>sorted_pools.
     Inr (slice_to limit sorted_pools)))"

text \<open>
  No cache is used here. The parameter \<open>min_tvl\<close> of the signature is kept as the
  source has it.
\<close>

definition get_yield_recommendations ::
  "pool list reply \<Rightarrow> string \<Rightarrow> int \<Rightarrow> int \<Rightarrow> exn + yield_row list" where
  "get_yield_recommendations r risk_tolerance min_tvl limit =
     (let params = params_for risk_tolerance
      in try_except
           (bind (fetch_json r) (\<lambda>data.
              case data of
                Some pools \<Rightarrow>
                  bind (recommended_pools params limit pools) (map_exn recommended_row)
              | None \<Rightarrow> Inr []))
           any_Exception (\<lambda>ex. Inr []))"

section \<open>trading_service.py\<close>

subsection \<open>get_token_price\<close>

text \<open>The simple-price answer: token identifier to \<open>{'usd': ..., 'usd_24h_change': ...}\<close>.\<close>

record quote =
  quote_usd :: "real field"
  quote_usd_24h_change :: "real field"

record price_row =
  price_price :: string
  price_change_24h :: string

definition token_price_key :: "string \<Rightarrow> string" where
  "token_price_key token_id = ''token_price_'' @ token_id"

definition get_token_price ::
  "(string \<Rightarrow> quote option) env \<Rightarrow> string \<Rightarrow> (string, price_row) cache
   \<Rightarrow> exn + (price_row option \<times> (string, price_row) cache)" where
  "get_token_price e token_id c =
     (let cache_key = token_price_key token_id;
          (cached_data, c1) = get_cached_result (t_get e) cache_key c
      in case cached_data of
           Some row \<Rightarrow> Inr (Some row, c1)
         | None \<Rightarrow>
             try_except
               (bind (fetch_json (reply e)) (\<lambda>body.
                  case body of
                    Some d \<Rightarrow>
                      (case d token_id of
                         Some token_data \<Rightarrow>
                           let result =
                                 \<lparr>price_price = format_currency (dget (quote_usd token_data) 0),
                                  price_change_24h =
                                    format_percentage (dget (quote_usd_24h_change token_data) 0)\<rparr>
                           in Inr (Some result, cache_result (t_put e) cache_key result 300 c1)
                       | None \<Rightarrow> Inr (None, c1))
                  | None \<Rightarrow> Inr (None, c1)))
               any_Exception (\<lambda>ex. Inr (None, c1)))"

subsection \<open>get_market_sentiment\<close>

record coin =
  coin_name :: "string field"
  coin_symbol :: "string field"
  coin_price_change_percentage_24h :: "real field"

record mover =
  mover_name :: "string option"
  mover_symbol :: string
  mover_change_24h :: string

record market_row =
  market_sentiment :: string
  market_avg_change_24h :: string
  market_top_gainers :: "mover list"
  market_top_losers :: "mover list"

definition change_key :: "coin \<Rightarrow> real option" where
  "change_key x = dget (coin_price_change_percentage_24h x) 0"

text \<open>\<open>sum(... for coin in data)\<close>: \<open>0 + x\<close> and so on; \<open>None\<close> raises TypeError.\<close>

fun py_sum :: "real option list \<Rightarrow> real \<Rightarrow> exn + real" where
  "py_sum [] acc = Inr acc"
| "py_sum (x # xs) acc = (case x of None \<Rightarrow> Inl TypeError | Some v \<Rightarrow> py_sum xs (acc + v))"

text \<open>The label chain of both sentiment operations, with its two thresholds.\<close>

definition label :: "real \<Rightarrow> real \<Rightarrow> real \<Rightarrow> string" where
  "label hi lo x =
     (if hi < x then ''very bullish''
      else if lo < x then ''bullish''
      else if x < - hi then ''very bearish''
      else if x < - lo then ''bearish''
      else ''neutral'')"

definition mover_of :: "coin \<Rightarrow> exn + mover" where
  "mover_of coin =
     bind (py_upper (dget (coin_symbol coin) ''Unknown'')) (\<lambda>symbol.
     Inr \<lparr>mover_name = dget (coin_name coin) ''Unknown'',
          mover_symbol = symbol,
          mover_change_24h = format_percentage (change_key coin)\<rparr>)"

definition market_sentiment_result :: "coin list \<Rightarrow> exn + market_row" where
  "market_sentiment_result d =
     bind (py_sum (map change_key d) 0) (\<lambda>total_change.
     let avg_change = (if d = [] then 0 else total_change / real (length d));
         sentiment = label 5 2 avg_change
     in bind (py_sorted_desc change_key d) (\<lambda>sorted_by_change.
        let top_gainers = slice_to 3 sorted_by_change;
            top_losers = last3 sorted_by_change
        in bind (map_exn mover_of top_gainers) (\<lambda>gainers.
           bind (map_exn mover_of top_losers) (\<lambda>losers.
           Inr \<lparr>market_sentiment = sentiment,
                market_avg_change_24h = format_percentage (Some avg_change),
                market_top_gainers = gainers,
                market_top_losers = losers\<rparr>))))"

definition get_market_sentiment ::
  "coin list env \<Rightarrow> (string, market_row) cache
   \<Rightarrow> exn + (market_row option \<times> (string, market_row) cache)" where
  "get_market_sentiment e c =
     (let cache_key = ''market_sentiment'';
          (cached_data, c1) = get_cached_result (t_get e) cache_key c
      in case cached_data of
           Some row \<Rightarrow> Inr (Some row, c1)
         | None \<Rightarrow>
             try_except
               (bind (fetch_json (reply e)) (\<lambda>body.
                  case body of
                    Some d \<Rightarrow>
                      bind (market_sentiment_result d) (\<lambda>result.
                        Inr (Some result, cache_result (t_put e) cache_key result 1800 c1))
                  | None \<Rightarrow> Inr (None, c1)))
               any_Exception (\<lambda>ex. Inr (None, c1)))"

subsection \<open>get_token_sentiment\<close>

text \<open>
  The coin detail: \<open>market_data\<close> and \<open>community_data\<close> are objects; in
  \<open>current_price\<close>, \<open>market_cap\<close> and \<open>total_volume\<close> the inner field is the key
  \<open>usd\<close> of the object.
\<close>

record market_data =
  md_price_change_percentage_24h :: "real field"
  md_price_change_percentage_7d :: "real field"
  md_price_change_percentage_30d :: "real field"
  md_current_price :: "real field field"
  md_market_cap :: "real field field"
  md_total_volume :: "real field field"

record community_data =
  cd_reddit_subscribers :: "real field"
  cd_twitter_followers :: "real field"

record coin_detail =
  detail_name :: "string field"
  detail_symbol :: "string field"
  detail_market_data :: "market_data field"
  detail_community_data :: "community_data field"

record sentiment_row =
  sent_name :: "string option"
  sent_symbol :: string
  sent_sentiment :: string
  sent_price :: string
  sent_change_24h :: string
  sent_change_7d :: string
  sent_change_30d :: string
  sent_market_cap :: string
  sent_volume_24h :: string

text \<open>\<open>data.get(k, {})\<close> followed by \<open>.get\<close>: the empty object has no key.\<close>

definition empty_market_data :: market_data where
  "empty_market_data =
     \<lparr>md_price_change_percentage_24h = Absent, md_price_change_percentage_7d = Absent,
      md_price_change_percentage_30d = Absent, md_current_price = Absent,
      md_market_cap = Absent, md_total_volume = Absent\<rparr>"

definition empty_community_data :: community_data where
  "empty_community_data = \<lparr>cd_reddit_subscribers = Absent, cd_twitter_followers = Absent\<rparr>"

definition get_object :: "'a field \<Rightarrow> 'a \<Rightarrow> exn + 'a" where
  "get_object f dflt =
     (case dget f dflt of None \<Rightarrow> Inl AttributeError | Some obj \<Rightarrow> Inr obj)"

text \<open>\<open>market_data.get(k, {}).get('usd', 0)\<close>\<close>

definition usd_of :: "real field field \<Rightarrow> exn + real option" where
  "usd_of f = bind (get_object f Absent) (\<lambda>obj. Inr (dget obj 0))"

definition token_sentiment_result :: "coin_detail \<Rightarrow> exn + sentiment_row" where
  "token_sentiment_result d =
     bind (get_object (detail_market_data d) empty_market_data) (\<lambda>market_data.
     bind (get_object (detail_community_data d) empty_community_data) (\<lambda>community_data.
     let price_change_24h = dget (md_price_change_percentage_24h market_data) 0;
         price_change_7d = dget (md_price_change_percentage_7d market_data) 0;
         price_change_30d = dget (md_price_change_percentage_30d market_data) 0
     in bind (py_times price_change_24h 0.5) (\<lambda>s24.
        bind (py_times price_change_7d 0.3) (\<lambda>s7.
        bind (py_times price_change_30d 0.2) (\<lambda>s30.
        let sentiment_score = 0 + s24 + s7 + s30;
            reddit_subscribers = dget (cd_reddit_subscribers community_data) 0;
            twitter_followers = dget (cd_twitter_followers community_data) 0
        in bind (py_gt reddit_subscribers 100000) (\<lambda>many_reddit.
           bind (if many_reddit then Inr True else py_gt twitter_followers 500000) (\<lambda>popular.
           let sentiment_score = (if popular then sentiment_score + 1 else sentiment_score);
               sentiment = label 10 5 sentiment_score
           in bind (py_upper (dget (detail_symbol d) ''Unknown'')) (\<lambda>symbol.
              bind (usd_of (md_current_price market_data)) (\<lambda>price.
              bind (usd_of (md_market_cap market_data)) (\<lambda>market_cap.
              bind (usd_of (md_total_volume market_data)) (\<lambda>volume.
              Inr \<lparr>sent_name = dget (detail_name d) ''Unknown'',
                   sent_symbol = symbol,
                   sent_sentiment = sentiment,
                   sent_price = format_currency price,
                   sent_change_24h = format_percentage price_change_24h,
                   sent_change_7d = format_percentage price_change_7d,
                   sent_change_30d = format_percentage price_change_30d,
                   sent_market_cap = format_currency market_cap,
                   sent_volume_24h = format_currency volume\<rparr>)))))))))))"

definition token_sentiment_key :: "string \<Rightarrow> string" where
  "token_sentiment_key token_id = ''token_sentiment_'' @ token_id"

definition get_token_sentiment ::
  "coin_detail env \<Rightarrow> string \<Rightarrow> (string, sentiment_row) cache
   \<Rightarrow> exn + (sentiment_row option \<times> (string, sentiment_row) cache)" where
  "get_token_sentiment e token_id c =
     (let cache_key = token_sentiment_key token_id;
          (cached_data, c1) = get_cached_result (t_get e) cache_key c
      in case cached_data of
           Some row \<Rightarrow> Inr (Some row, c1)
         | None \<Rightarrow>
             try_except
               (bind (fetch_json (reply e)) (\<lambda>body.
                  case body of
                    Some d \<Rightarrow>
                      bind (token_sentiment_result d) (\<lambda>result.
                        Inr (Some result, cache_result (t_put e) cache_key result 1800 c1))
                  | None \<Rightarrow> Inr (None, c1)))
               any_Exception (\<lambda>ex. Inr (None, c1)))"

subsection \<open>get_trading_signals\<close>

record signal =
  signal_type :: string
  signal_signal :: string
  signal_reason :: string

record signals_row =
  signals_name :: "string option"
  signals_symbol :: string
  signals_price :: string
  signals :: "signal list"

text \<open>The three rule groups, each an \<open>if\<close>/\<open>elif\<close> chain that appends at most one signal.\<close>

definition short_term_signals :: "sentiment_row \<Rightarrow> real \<Rightarrow> signal list" where
  "short_term_signals token_data change_24h =
     (if 5 < change_24h then
        [\<lparr>signal_type = ''short_term'', signal_signal = ''strong_buy'',
          signal_reason = ''Price up '' @ sent_change_24h token_data @ '' in last 24 hours''\<rparr>]
      else if 2 < change_24h then
        [\<lparr>signal_type = ''short_term'', signal_signal = ''buy'',
          signal_reason = ''Price up '' @ sent_change_24h token_data @ '' in last 24 hours''\<rparr>]
      else if change_24h < - 5 then
        [\<lparr>signal_type = ''short_term'', signal_signal = ''strong_sell'',
          signal_reason = ''Price down '' @ sent_change_24h token_data @ '' in last 24 hours''\<rparr>]
      else if change_24h < - 2 then
        [\<lparr>signal_type = ''short_term'', signal_signal = ''sell'',
          signal_reason = ''Price down '' @ sent_change_24h token_data @ '' in last 24 hours''\<rparr>]
      else [])"

definition medium_term_signals :: "sentiment_row \<Rightarrow> real \<Rightarrow> real \<Rightarrow> signal list" where
  "medium_term_signals token_data change_24h change_7d =
     (if 0 < change_7d \<and> change_24h < 0 then
        [\<lparr>signal_type = ''medium_term'', signal_signal = ''buy_dip'',
          signal_reason = ''Positive 7-day trend ('' @ sent_change_7d token_data
            @ '') with recent dip ('' @ sent_change_24h token_data @ '')''\<rparr>]
      else if change_7d < 0 \<and> 0 < change_24h then
        [\<lparr>signal_type = ''medium_term'', signal_signal = ''sell_rally'',
          signal_reason = ''Negative 7-day trend ('' @ sent_change_7d token_data
            @ '') with recent rally ('' @ sent_change_24h token_data @ '')''\<rparr>]
      else [])"

definition long_term_signals :: "sentiment_row \<Rightarrow> real \<Rightarrow> signal list" where
  "long_term_signals token_data change_30d =
     (if 20 < change_30d then
        [\<lparr>signal_type = ''long_term'', signal_signal = ''take_profit'',
          signal_reason = ''Price up '' @ sent_change_30d token_data
            @ '' in last 30 days, consider taking profits''\<rparr>]
      else if change_30d < - 20 then
        [\<lparr>signal_type = ''long_term'', signal_signal = ''accumulate'',
          signal_reason = ''Price down '' @ sent_change_30d token_data
            @ '' in last 30 days, potential accumulation zone''\<rparr>]
      else [])"

definition neutral_signal :: signal where
  "neutral_signal =
     \<lparr>signal_type = ''general'', signal_signal = ''neutral'',
      signal_reason = ''No clear trading signals at this time''\<rparr>"

definition generate_signals :: "sentiment_row \<Rightarrow> real \<Rightarrow> real \<Rightarrow> real \<Rightarrow> signal list" where
  "generate_signals token_data change_24h change_7d change_30d =
     (let sigs = [] @ short_term_signals token_data change_24h;
          sigs = sigs @ medium_term_signals token_data change_24h change_7d;
          sigs = sigs @ long_term_signals token_data change_30d
      in if sigs = [] then sigs @ [neutral_signal] else sigs)"

definition trading_signals_result :: "sentiment_row \<Rightarrow> exn + signals_row" where
  "trading_signals_result token_data =
     bind (py_float (strip_percent (sent_change_24h token_data))) (\<lambda>change_24h.
     bind (py_float (strip_percent (sent_change_7d token_data))) (\<lambda>change_7d.
     bind (py_float (strip_percent (sent_change_30d token_data))) (\<lambda>change_30d.
     Inr \<lparr>signals_name = sent_name token_data,
          signals_symbol = sent_symbol token_data,
          signals_price = sent_price token_data,
          signals = generate_signals token_data change_24h change_7d change_30d\<rparr>)))"

text \<open>\<open>if not token_data\<close>: the record of \<open>get_token_sentiment\<close> is never empty.\<close>

definition get_trading_signals ::
  "coin_detail env \<Rightarrow> string \<Rightarrow> (string, sentiment_row) cache
   \<Rightarrow> exn + (signals_row option \<times> (string, sentiment_row) cache)" where
  "get_trading_signals e token_id c =
     bind (get_token_sentiment e token_id c) (\<lambda>(token_data, c1).
       case token_data of
         None \<Rightarrow> Inr (None, c1)
       | Some td \<Rightarrow>
           try_except
             (bind (trading_signals_result td) (\<lambda>r. Inr (Some r, c1)))
             any_Exception (\<lambda>ex. Inr (None, c1)))"

subsection \<open>get_yield_entry_recommendation\<close>

record recommendation =
  rec_name :: "string option"
  rec_symbol :: string
  rec_price :: string
  enter_now :: bool
  confidence :: string
  reasoning :: "string list"

definition recommend :: "sentiment_row \<Rightarrow> signals_row \<Rightarrow> recommendation" where
  "recommend token_data trading_signals =
     (let signal_types = map signal_signal (signals trading_signals);
          r = \<lparr>rec_name = sent_name token_data, rec_symbol = sent_symbol token_data,
               rec_price = sent_price token_data, enter_now = False, confidence = ''low'',
               reasoning = []\<rparr>;
          r = (if ''strong_buy'' \<in> set signal_types \<or> ''buy'' \<in> set signal_types
                  \<or> ''buy_dip'' \<in> set signal_types
               then r\<lparr>enter_now := True, confidence := ''medium'',
                      reasoning := reasoning r
                        @ [''Positive short or medium-term signals detected'']\<rparr>
               else r);
          r = (if ''accumulate'' \<in> set signal_types
               then r\<lparr>enter_now := True, confidence := ''high'',
                      reasoning := reasoning r
                        @ [''Token is in accumulation zone, good for yield positions'']\<rparr>
               else r);
          r = (if sent_sentiment token_data \<in> set [''bullish'', ''very bullish'']
               then (if enter_now r then r\<lparr>confidence := ''high''\<rparr> else r)
                      \<lparr>reasoning := reasoning r
                        @ [''Overall sentiment is '' @ sent_sentiment token_data]\<rparr>
               else if sent_sentiment token_data \<in> set [''bearish'', ''very bearish'']
               then r\<lparr>enter_now := False, confidence := ''high'',
                      reasoning := reasoning r
                        @ [''Overall sentiment is '' @ sent_sentiment token_data
                           @ '', consider waiting'']\<rparr>
               else r)
      in if reasoning r = []
         then r\<lparr>reasoning := reasoning r @ [''No strong signals in either direction'']\<rparr>
         else r)"

text \<open>
  The sentiment is fetched, then the signals (which fetch the sentiment again), each call
  with its own environment.
\<close>

definition get_yield_entry_recommendation ::
  "coin_detail env \<Rightarrow> coin_detail env \<Rightarrow> string \<Rightarrow> (string, sentiment_row) cache
   \<Rightarrow> exn + (recommendation option \<times> (string, sentiment_row) cache)" where
  "get_yield_entry_recommendation e1 e2 token_id c =
     bind (get_token_sentiment e1 token_id c) (\<lambda>(token_data, c1).
     bind (get_trading_signals e2 token_id c1) (\<lambda>(trading_signals, c2).
       case token_data of
         None \<Rightarrow> Inr (None, c2)
       | Some td \<Rightarrow>
           (case trading_signals of
              None \<Rightarrow> Inr (None, c2)
            | Some ts \<Rightarrow>
                try_except (Inr (Some (recommend td ts), c2))
                  any_Exception (\<lambda>ex. Inr (None, c2)))))"

section \<open>Reading formatted numbers back\<close>

definition is_digit :: "char \<Rightarrow> bool" where
  "is_digit c = (digit_val c \<noteq> None)"

text \<open>
  The number \<open>float\<close> reads from the text of \<open>f"{v:.2f}"\<close>: \<open>v\<close> rounded to two
  decimals.
\<close>

definition shown2 :: "real \<Rightarrow> real" where
  "shown2 v =
     (let q = of_int (round_half_even (\<bar>v\<bar> * 100)) / 100
      in if v < 0 then - q else q)"

section \<open>The signal rules in the words of the specification\<close>

text \<open>
  The three changes \<open>get_trading_signals\<close> works on: the displayed changes of the
  sentiment record, read back as numbers.
\<close>

definition parsed_changes :: "sentiment_row \<Rightarrow> exn + real \<times> real \<times> real" where
  "parsed_changes token_data =
     bind (py_float (strip_percent (sent_change_24h token_data))) (\<lambda>change_24h.
     bind (py_float (strip_percent (sent_change_7d token_data))) (\<lambda>change_7d.
     bind (py_float (strip_percent (sent_change_30d token_data))) (\<lambda>change_30d.
     Inr (change_24h, change_7d, change_30d))))"

text \<open>
  Each rule with its trigger, in the fixed order of the specification; the signals are
  the rules that fire, or \<open>neutral\<close> alone when none does.
\<close>

definition spec_rules :: "real \<Rightarrow> real \<Rightarrow> real \<Rightarrow> (string \<times> bool) list" where
  "spec_rules c24 c7 c30 =
     [(''strong_buy'', 5 < c24),
      (''buy'', 2 < c24 \<and> c24 \<le> 5),
      (''strong_sell'', c24 < - 5),
      (''sell'', c24 < - 2 \<and> - 5 \<le> c24),
      (''buy_dip'', 0 < c7 \<and> c24 < 0),
      (''sell_rally'', c7 < 0 \<and> 0 < c24),
      (''take_profit'', 20 < c30),
      (''accumulate'', c30 < - 20)]"

definition spec_signals :: "real \<Rightarrow> real \<Rightarrow> real \<Rightarrow> string list" where
  "spec_signals c24 c7 c30 =
     (let fired = map fst (filter snd (spec_rules c24 c7 c30))
      in if fired = [] then [''neutral''] else fired)"

section \<open>The recommendation filter in the words of the specification\<close>



section \<open>The rows a comparison works on\<close>

text \<open>
  The rows \<open>get_yield_by_protocol\<close> computes from the provider's answer when the cache
  does not serve the call, and the rows it returns on a cache \<open>c\<close>.
\<close>

definition fetched_protocol_rows :: "pool list reply \<Rightarrow> string \<Rightarrow> int \<Rightarrow> protocol_row list" where
  "fetched_protocol_rows r protocol_name limit =
     (case fetch_json r of
        Inr (Some pools) \<Rightarrow>
          (case protocol_yields_results protocol_name limit pools of
             Inr rows \<Rightarrow> rows | Inl ex \<Rightarrow> [])
      | _ \<Rightarrow> [])"

definition yields_served ::
  "pool list env \<Rightarrow> string \<Rightarrow> int \<Rightarrow> (string, protocol_row list) cache \<Rightarrow> protocol_row list" where
  "yields_served e protocol_name limit c =
     (case truthy_list (fst (get_cached_result (t_get e)
                               (protocol_yields_key protocol_name limit) c)) of
        Some rows \<Rightarrow> rows
      | None \<Rightarrow> fetched_protocol_rows (reply e) protocol_name limit)"

section \<open>Scenarios\<close>

text \<open>A coin detail with the given 24h, 7d and 30d changes and nothing else.\<close>

definition detail_with_changes :: "real \<Rightarrow> real \<Rightarrow> real \<Rightarrow> coin_detail" where
  "detail_with_changes c24 c7 c30 =
     \<lparr>detail_name = Val ''Token'', detail_symbol = Val ''tok'',
      detail_market_data = Val
        \<lparr>md_price_change_percentage_24h = Val c24, md_price_change_percentage_7d = Val c7,
         md_price_change_percentage_30d = Val c30, md_current_price = Absent,
         md_market_cap = Absent, md_total_volume = Absent\<rparr>,
      detail_community_data = Absent\<rparr>"

text \<open>An environment whose clock stands at \<open>t\<close> and whose provider answers 200 with \<open>d\<close>.\<close>

definition ok_env :: "real \<Rightarrow> 'b \<Rightarrow> 'b env" where
  "ok_env t d = \<lparr>t_get = t, t_put = t, reply = Reply 200 (Some d)\<rparr>"

text \<open>The request did not give a decoded body: transport error, other status, or bad body.\<close>

definition fetch_failed :: "'b reply \<Rightarrow> bool" where
  "fetch_failed r = (case fetch_json r of Inr (Some d) \<Rightarrow> False | _ \<Rightarrow> True)"

text \<open>An environment whose provider answers with the status 500.\<close>

definition down_env :: "real \<Rightarrow> 'b env" where
  "down_env t = \<lparr>t_get = t, t_put = t, reply = Reply 500 None\<rparr>"

text \<open>The record \<open>get_top_yields\<close> makes of \<open>aave_pool\<close>.\<close>

definition aave_row :: yield_row where
  "aave_row =
     \<lparr>row_name = Some ''Unknown'', row_protocol = Some ''aave'',
      row_chain = Some ''ethereum'', row_apy = ''8.50%'', row_tvl = ''$5,000,000.00'',
      row_risk_score = ''4.0/10'', row_url = ''https://defillama.com/yields?project=aave''\<rparr>"

text \<open>The pool of the specification's first scenario, and a smaller one.\<close>

definition aave_pool :: pool where
  "aave_pool =
     \<lparr>pool_name = Absent, pool_project = Val ''aave'', pool_chain = Val ''ethereum'',
      pool_apy = Val 8.5, pool_tvlUsd = Val 5000000, pool_volatility = Absent,
      pool_risk_score = Absent\<rparr>"

definition compound_pool :: pool where
  "compound_pool =
     \<lparr>pool_name = Absent, pool_project = Val ''compound'', pool_chain = Val ''polygon'',
      pool_apy = Val 3.25, pool_tvlUsd = Val 2000000, pool_volatility = Val 0.2,
      pool_risk_score = Absent\<rparr>"

definition cfg300 :: config where
  "cfg300 = \<lparr>CACHE_TIMEOUT = 300\<rparr>"

section \<open>Risk score: properties\<close>











lemma not_float_overflows: "\<bar>x\<bar> \<le> 2 ^ 1000 \<Longrightarrow> \<not> float_overflows x"
proof -
  assume x: "\<bar>x\<bar> \<le> 2 ^ 1000"
  have a: "(2::real) ^ 1000 < 2 ^ 1023" by (rule power_strict_increasing) simp_all
  have b: "(2::real) ^ 970 \<le> 2 ^ 1023" by (rule power_increasing) simp_all
  have c: "(2::real) ^ 1024 = 2 * 2 ^ 1023"
    using power_Suc [of "2::real" 1023] by simp
  from x a b c show ?thesis by (simp add: float_overflows_def)
qed

lemma small_le_pow: "\<bar>x\<bar> \<le> 1024 \<Longrightarrow> \<bar>x::real\<bar> \<le> 2 ^ 1000"
proof -
  assume x: "\<bar>x\<bar> \<le> 1024"
  have "(2::real) ^ 10 \<le> 2 ^ 1000" by (rule power_increasing) simp_all
  with x show ?thesis by simp
qed

lemma protocol_age_365: "py_div_int (PInt 365) 30 = Inr (365 / 30)"
  using not_float_overflows [OF small_le_pow, of "365 / 30"] by simp



lemma float_overflows_code [code]:
  "float_overflows x = (if \<bar>x\<bar> \<le> 1024 then False else 2 ^ 1024 - 2 ^ 970 \<le> \<bar>x\<bar>)"
  using not_float_overflows [OF small_le_pow, of x] by (simp add: float_overflows_def)



theorem risk_score_int_beyond_float_counterexample:
  "is_numeric (PFloat 0.5) \<and> is_numeric (PInt (2 ^ 1100)) \<and> is_numeric (PInt 365)
   \<and> calculate_risk_score (PFloat 0.5) (PInt (2 ^ 1100)) (PInt 365) = Inl OverflowError"
  by (simp add: calculate_risk_score_def calculate_risk_score_body_def try_except_def
      bind_def float_overflows_def)

section \<open>The cache: properties\<close>

lemma get_after_put_fresh:
  "now < t + ttl \<Longrightarrow>
   get_cached_result now k (cache_result t k v ttl c) = (Some v, cache_result t k v ttl c)"
  by (simp add: get_cached_result_def cache_result_def)

lemma get_after_put_expired:
  "\<not> now < t + ttl \<Longrightarrow>
   get_cached_result now k (cache_result t k v ttl c) = (None, c(k := None))"
  by (simp add: get_cached_result_def cache_result_def)

text \<open>
  C7. After \<open>cache_result\<close> at time \<open>t\<close> with lifetime \<open>ttl\<close>, a lookup of the key at a
  time before \<open>t + ttl\<close> returns the value and leaves the cache as it is; a lookup at or
  after \<open>t + ttl\<close> returns \<open>None\<close> and leaves a cache without the key; a following
  \<open>cache_result\<close> on the key stores the new value with its own expiry, and a lookup
  before that expiry returns it.
\<close>

theorem cache_put_get_expire:
  "(now < t + ttl \<longrightarrow>
      get_cached_result now k (cache_result t k v ttl c) = (Some v, cache_result t k v ttl c))
   \<and> (\<not> now < t + ttl \<longrightarrow>
        fst (get_cached_result now k (cache_result t k v ttl c)) = None
        \<and> k \<notin> dom (snd (get_cached_result now k (cache_result t k v ttl c)))
        \<and> cache_result t' k v' ttl' (snd (get_cached_result now k (cache_result t k v ttl c))) k
            = Some \<lparr>data = v', expires = t' + ttl'\<rparr>
        \<and> (now' < t' + ttl' \<longrightarrow>
             fst (get_cached_result now' k
                    (cache_result t' k v' ttl'
                       (snd (get_cached_result now k (cache_result t k v ttl c))))) = Some v'))"
  by (simp add: get_after_put_fresh get_after_put_expired)
     (simp add: cache_result_def get_cached_result_def)

theorem cache_put_get_expire_witness:
  "(0.5::real) < 0 + 1
   \<and> get_cached_result 0.5 ''k'' (cache_result 0 ''k'' (7::nat) 1 Map.empty)
       = (Some 7, cache_result 0 ''k'' 7 1 Map.empty)
   \<and> \<not> (1::real) < 0 + 1
   \<and> fst (get_cached_result 1 ''k'' (cache_result 0 ''k'' (7::nat) 1 Map.empty)) = None
   \<and> ''k'' \<notin> dom (snd (get_cached_result 1 ''k'' (cache_result 0 ''k'' (7::nat) 1 Map.empty)))
   \<and> (2::real) < 2 + 1
   \<and> fst (get_cached_result 2 ''k''
            (cache_result 2 ''k'' 8 1
               (snd (get_cached_result 1 ''k'' (cache_result 0 ''k'' (7::nat) 1 Map.empty)))))
       = Some 8"
  using cache_put_get_expire [of "0.5" 0 1 "''k''" "7::nat" Map.empty]
    cache_put_get_expire [of 1 0 1 "''k''" "7::nat" Map.empty 2 8 1 2]
  by simp

text \<open>
  C9. \<open>get_yield_recommendations\<close> does not read its parameter \<open>min_tvl\<close>: two calls
  that differ only there return the same result.
\<close>

theorem recommendations_ignore_min_tvl:
  "get_yield_recommendations r risk_tolerance v1 limit
   = get_yield_recommendations r risk_tolerance v2 limit"
  by (simp add: get_yield_recommendations_def)

section \<open>Formatting and reading back: properties\<close>


lemma digit_val_digit_char: "digit_val (digit_char n) = Some (n mod 10)"
proof -
  have "digit_val (''0123456789'' ! nat m) = Some m" if "0 \<le> m" "m < 10" for m :: int
  proof -
    from that have "m = 0 \<or> m = 1 \<or> m = 2 \<or> m = 3 \<or> m = 4 \<or> m = 5 \<or> m = 6 \<or> m = 7
        \<or> m = 8 \<or> m = 9" by arith
    then show ?thesis by (elim disjE) (simp_all add: digit_val_def)
  qed
  then show ?thesis by (simp add: digit_char_def)
qed

lemma digits_val_append:
  "digits_val (xs @ ys) acc = (case digits_val xs acc of None \<Rightarrow> None | Some a \<Rightarrow> digits_val ys a)"
  by (induction xs arbitrary: acc) (auto split: option.splits)

lemma show_nat_small: "n < 10 \<Longrightarrow> show_nat n = [digit_char n]"
  by (subst show_nat.simps) simp

lemma show_nat_large: "\<not> n < 10 \<Longrightarrow> show_nat n = show_nat (n div 10) @ [digit_char n]"
  by (subst show_nat.simps) simp

lemma digits_val_show_nat: "0 \<le> n \<Longrightarrow> digits_val (show_nat n) 0 = Some n"
proof (induction n rule: show_nat.induct)
  case (1 n)
  from "1.prems" have n: "0 \<le> n" .
  show ?case
  proof (cases "n < 10")
    case True
    with n show ?thesis by (simp add: show_nat_small digit_val_digit_char)
  next
    case False
    from n have "0 \<le> n div 10" by (simp add: pos_imp_zdiv_nonneg_iff)
    with "1.IH" False have "digits_val (show_nat (n div 10)) 0 = Some (n div 10)" by simp
    with False show ?thesis
      by (simp add: show_nat_large digits_val_append digit_val_digit_char)
  qed
qed

lemma is_digit_digit_char: "is_digit (digit_char n)"
  by (simp add: is_digit_def digit_val_digit_char)

lemma digits_show_nat: "list_all is_digit (show_nat n)"
proof (induction n rule: show_nat.induct)
  case (1 n)
  show ?case
  proof (cases "n < 10")
    case True
    then show ?thesis by (simp add: show_nat_small is_digit_digit_char)
  next
    case False
    with 1 have "list_all is_digit (show_nat (n div 10))" by simp
    with False show ?thesis
      by (simp add: show_nat_large is_digit_digit_char)
  qed
qed

lemma show_nat_not_Nil: "show_nat n \<noteq> []"
  by (cases "n < 10") (simp_all add: show_nat_small show_nat_large)

lemma length_show_nat_small: "n < 100 \<Longrightarrow> length (show_nat n) \<le> 2"
  by (cases "n < 10") (simp_all add: show_nat_small show_nat_large)

lemma not_digit: "\<not> is_digit (CHR ''.'')" "\<not> is_digit (CHR ''%'')" "\<not> is_digit (CHR ''-'')"
  "\<not> is_digit (CHR ''+'')" "is_digit (CHR ''0'')"
  by (simp_all add: is_digit_def digit_val_def)

lemma digits_val_zeros: "digits_val (replicate k (CHR ''0'') @ s) 0 = digits_val s 0"
  by (induction k) (simp_all add: digit_val_def)

lemma digits_val_pad_left: "0 \<le> n \<Longrightarrow> digits_val (pad_left k (show_nat n)) 0 = Some n"
  by (simp add: pad_left_def digits_val_zeros digits_val_show_nat)

lemma digits_pad_left: "list_all is_digit (pad_left k (show_nat n))"
  using digits_show_nat [of n] by (auto simp: pad_left_def list_all_iff not_digit)

lemma length_pad_left: "n < 100 \<Longrightarrow> length (pad_left 2 (show_nat n)) = 2"
  using length_show_nat_small [of n] by (simp add: pad_left_def)

lemma takeWhile_digits:
  "list_all is_digit xs \<Longrightarrow> takeWhile (\<lambda>c. c \<noteq> CHR ''.'') (xs @ CHR ''.'' # ys) = xs"
  by (induction xs) (auto simp: not_digit)

lemma dropWhile_digits:
  "list_all is_digit xs \<Longrightarrow> dropWhile (\<lambda>c. c \<noteq> CHR ''.'') (xs @ CHR ''.'' # ys) = CHR ''.'' # ys"
  by (induction xs) (auto simp: not_digit)

lemma unsigned_float_digits:
  assumes "list_all is_digit ip" "list_all is_digit fp" "ip \<noteq> []"
    "digits_val ip 0 = Some i" "digits_val fp 0 = Some f"
  shows "unsigned_float (ip @ CHR ''.'' # fp) = Inr (of_int i + of_int f / 10 ^ length fp)"
  using assms by (simp add: unsigned_float_def takeWhile_digits dropWhile_digits Let_def)


lemma filter_digits: "list_all is_digit xs \<Longrightarrow> filter (\<lambda>c. c \<noteq> CHR ''%'') xs = xs"
  by (induction xs) (auto simp: not_digit)

lemma fixed2_parts:
  "fixed False 2 v =
     (if v < 0 then ''-'' else []) @ show_nat (round_half_even (\<bar>v\<bar> * 100) div 100)
       @ CHR ''.'' # pad_left 2 (show_nat (round_half_even (\<bar>v\<bar> * 100) mod 100))"
  by (simp add: fixed_def Let_def)

lemma strip_percent_fixed2: "strip_percent (fixed False 2 v @ ''%'') = fixed False 2 v"
  by (simp add: fixed2_parts strip_percent_def filter_digits digits_show_nat digits_pad_left)

lemma round_half_even_nonneg: "0 \<le> x \<Longrightarrow> 0 \<le> round_half_even x"
  by (simp add: round_half_even_def Let_def)

lemma unsigned_float_fixed2:
  assumes "0 \<le> q"
  shows "unsigned_float (show_nat (q div 100) @ CHR ''.'' # pad_left 2 (show_nat (q mod 100)))
         = Inr (real_of_int q / 100)"
proof -
  have "real_of_int (q div 100) + real_of_int (q mod 100) / 100 = real_of_int q / 100"
  proof -
    have "real_of_int q = real_of_int (100 * (q div 100) + q mod 100)" by simp
    also have "\<dots> = 100 * real_of_int (q div 100) + real_of_int (q mod 100)"
      by (simp only: of_int_add of_int_mult of_int_numeral)
    finally show ?thesis by simp
  qed
  moreover from assms have "0 \<le> q div 100" "0 \<le> q mod 100" "q mod 100 < 100"
    by (simp_all add: pos_imp_zdiv_nonneg_iff)
  ultimately show ?thesis
    by (simp add: unsigned_float_digits [where i = "q div 100" and f = "q mod 100"]
        digits_show_nat digits_pad_left show_nat_not_Nil digits_val_show_nat
        digits_val_pad_left length_pad_left)
qed

lemma hd_show_nat_digit: "\<exists>c cs. show_nat n = c # cs \<and> is_digit c"
  using digits_show_nat [of n] show_nat_not_Nil [of n] by (cases "show_nat n") auto

lemma py_float_fixed2: "py_float (fixed False 2 v) = Inr (shown2 v)"
proof -
  define q where "q = round_half_even (\<bar>v\<bar> * 100)"
  have q: "0 \<le> q" by (simp add: q_def round_half_even_nonneg)
  let ?body = "show_nat (q div 100) @ CHR ''.'' # pad_left 2 (show_nat (q mod 100))"
  have body: "unsigned_float ?body = Inr (real_of_int q / 100)"
    by (rule unsigned_float_fixed2 [OF q])
  obtain c cs where c: "show_nat (q div 100) = c # cs" "is_digit c"
    using hd_show_nat_digit by blast
  show ?thesis
  proof (cases "v < 0")
    case True
    then have "fixed False 2 v = CHR ''-'' # ?body"
      by (simp only: fixed2_parts q_def if_True append_Cons append_Nil)
    moreover have "py_float (CHR ''-'' # ?body) = Inr (- (real_of_int q / 100))"
      by (simp add: py_float_def body bind_def)
    moreover from True have "shown2 v = - (real_of_int q / 100)"
      by (simp only: shown2_def q_def Let_def if_True)
    ultimately show ?thesis by simp
  next
    case False
    then have "fixed False 2 v = ?body"
      by (simp only: fixed2_parts q_def if_False append_Nil)
    moreover have "c \<noteq> CHR ''-''" "c \<noteq> CHR ''+''" using c(2) not_digit by auto
    then have "py_float ?body = unsigned_float ?body"
      by (simp add: py_float_def c(1))
    moreover from False have "shown2 v = real_of_int q / 100"
      by (simp only: shown2_def q_def Let_def if_False)
    ultimately show ?thesis by (simp add: body)
  qed
qed

lemma float_of_percentage:
  "py_float (strip_percent (format_percentage (Some v))) = Inr (shown2 v)"
  by (simp add: format_percentage_def strip_percent_fixed2 py_float_fixed2)

lemma float_of_NA: "py_float (strip_percent (format_percentage None)) = Inl ValueError"
  by (simp add: format_percentage_def strip_percent_def py_float_def unsigned_float_def
      digit_val_def)

lemma round_half_even_0: "round_half_even 0 = 0"
  by (simp add: round_half_even_def)

lemma shown2_minus: "shown2 (- v) = - shown2 v"
proof (cases "v = 0")
  case True
  then show ?thesis by (simp add: shown2_def round_half_even_0)
next
  case False
  then show ?thesis by (auto simp: shown2_def Let_def)
qed

section \<open>Trading signals: properties\<close>


lemma generate_signals_spec:
  "map signal_signal (generate_signals td c24 c7 c30) = spec_signals c24 c7 c30"
  by (simp add: generate_signals_def short_term_signals_def medium_term_signals_def
      long_term_signals_def neutral_signal_def spec_signals_def spec_rules_def Let_def)

lemma generate_signals_not_Nil: "generate_signals td c24 c7 c30 \<noteq> []"
  by (simp add: generate_signals_def Let_def neutral_signal_def)

lemma trading_signals_result_parsed:
  "parsed_changes td = Inr (c24, c7, c30) \<Longrightarrow>
   \<exists>ts. trading_signals_result td = Inr ts
     \<and> signals ts = generate_signals td c24 c7 c30"
  by (auto simp: parsed_changes_def trading_signals_result_def bind_def split: sum.splits)

lemma trading_signals_result_unparsed:
  "parsed_changes td = Inl ex \<Longrightarrow> trading_signals_result td = Inl ex"
  by (auto simp: parsed_changes_def trading_signals_result_def bind_def split: sum.splits)

lemma bind_eq_Inr: "bind m f = Inr y \<longleftrightarrow> (\<exists>x. m = Inr x \<and> f x = Inr y)"
  by (cases m) (simp_all add: bind_def)

lemma py_times_Inr: "py_times x k = Inr y \<longleftrightarrow> (\<exists>v. x = Some v \<and> y = v * k)"
  by (cases x) (auto simp: py_times_def)

lemma token_sentiment_result_changes:
  assumes "token_sentiment_result d = Inr td"
  shows "\<exists>a b c. sent_change_24h td = format_percentage (Some a)
           \<and> sent_change_7d td = format_percentage (Some b)
           \<and> sent_change_30d td = format_percentage (Some c)
           \<and> parsed_changes td = Inr (shown2 a, shown2 b, shown2 c)"
proof -
  have sel: "r = td \<Longrightarrow> sent_change_24h td = sent_change_24h r
      \<and> sent_change_7d td = sent_change_7d r \<and> sent_change_30d td = sent_change_30d r" for r
    by simp
  from assms have "\<exists>a b c. sent_change_24h td = format_percentage (Some a)
      \<and> sent_change_7d td = format_percentage (Some b)
      \<and> sent_change_30d td = format_percentage (Some c)"
    unfolding token_sentiment_result_def Let_def bind_eq_Inr py_times_Inr sum.inject
    apply (elim exE conjE)
    apply (drule sel)
    apply (simp only: sentiment_row.select_convs)
    apply blast
    done
  then obtain a b c where "sent_change_24h td = format_percentage (Some a)
      \<and> sent_change_7d td = format_percentage (Some b)
      \<and> sent_change_30d td = format_percentage (Some c)" by blast
  then show ?thesis
    by (intro exI [of _ a] exI [of _ b] exI [of _ c])
       (simp add: parsed_changes_def float_of_percentage bind_def)
qed


lemma get_trading_signals_of_sentiment:
  assumes "get_token_sentiment e token c = Inr (Some td, c1)"
  shows "get_trading_signals e token c
         = (case trading_signals_result td of
              Inr ts \<Rightarrow> Inr (Some ts, c1) | Inl ex \<Rightarrow> Inr (None, c1))"
  using assms
  by (simp add: get_trading_signals_def bind_def try_except_def any_Exception_def
      split: sum.splits)

text \<open>
  C4. When \<open>get_token_sentiment\<close> returns a record, \<open>get_trading_signals\<close> works on the
  three changes displayed in that record. When they read back as numbers, it returns the
  signals the rules of the specification fire on them, in the fixed order, or \<open>neutral\<close>
  alone, and never an empty list; otherwise it returns \<open>None\<close>. A record computed from
  the provider's answer always displays numbers, which read back as the changes rounded
  to two decimals.
\<close>

theorem trading_signals_follow_rules:
  assumes "get_token_sentiment e token c = Inr (Some td, c1)"
  shows "(case parsed_changes td of
            Inr (c24, c7, c30) \<Rightarrow>
              \<exists>ts. get_trading_signals e token c = Inr (Some ts, c1)
                \<and> map signal_signal (signals ts) = spec_signals c24 c7 c30
                \<and> signals ts \<noteq> []
          | Inl ex \<Rightarrow> get_trading_signals e token c = Inr (None, c1))
       \<and> (\<forall>d. token_sentiment_result d = Inr td \<longrightarrow>
             (\<exists>a b c. sent_change_24h td = format_percentage (Some a)
                \<and> sent_change_7d td = format_percentage (Some b)
                \<and> sent_change_30d td = format_percentage (Some c)
                \<and> parsed_changes td = Inr (shown2 a, shown2 b, shown2 c)))"
proof (intro conjI allI impI)
  show "case parsed_changes td of
          Inr (c24, c7, c30) \<Rightarrow>
            \<exists>ts. get_trading_signals e token c = Inr (Some ts, c1)
              \<and> map signal_signal (signals ts) = spec_signals c24 c7 c30
              \<and> signals ts \<noteq> []
        | Inl ex \<Rightarrow> get_trading_signals e token c = Inr (None, c1)"
  proof (cases "parsed_changes td")
    case (Inl ex)
    then show ?thesis
      by (simp add: get_trading_signals_of_sentiment [OF assms]
          trading_signals_result_unparsed)
  next
    case (Inr p)
    obtain c24 c7 c30 where p: "p = (c24, c7, c30)" by (cases p)
    from Inr p obtain ts where "trading_signals_result td = Inr ts"
      "signals ts = generate_signals td c24 c7 c30"
      using trading_signals_result_parsed by blast
    then show ?thesis
      by (simp add: Inr p get_trading_signals_of_sentiment [OF assms]
          generate_signals_spec generate_signals_not_Nil)
  qed
next
  fix d assume "token_sentiment_result d = Inr td"
  then show "\<exists>a b c. sent_change_24h td = format_percentage (Some a)
                \<and> sent_change_7d td = format_percentage (Some b)
                \<and> sent_change_30d td = format_percentage (Some c)
                \<and> parsed_changes td = Inr (shown2 a, shown2 b, shown2 c)"
    by (rule token_sentiment_result_changes)
qed


theorem trading_signals_follow_rules_witness:
  "\<exists>td c1 ts.
     get_token_sentiment (ok_env 0 (detail_with_changes (- 6) 3 25)) ''tok'' Map.empty
       = Inr (Some td, c1)
     \<and> token_sentiment_result (detail_with_changes (- 6) 3 25) = Inr td
     \<and> parsed_changes td = Inr (- 6, 3, 25)
     \<and> get_trading_signals (ok_env 0 (detail_with_changes (- 6) 3 25)) ''tok'' Map.empty
         = Inr (Some ts, c1)
     \<and> map signal_signal (signals ts) = [''strong_sell'', ''buy_dip'', ''take_profit'']"
proof -
  let ?td = "\<lparr>sent_name = Some ''Token'', sent_symbol = ''TOK'', sent_sentiment = ''neutral'',
    sent_price = ''$0.00'', sent_change_24h = ''-6.00%'', sent_change_7d = ''3.00%'',
    sent_change_30d = ''25.00%'', sent_market_cap = ''$0.00'', sent_volume_24h = ''$0.00''\<rparr>"
  have computed: "token_sentiment_result (detail_with_changes (- 6) 3 25) = Inr ?td"
    by code_simp
  have parsed: "parsed_changes ?td = Inr (- 6, 3, 25)"
    by code_simp
  have fetched:
    "get_token_sentiment (ok_env 0 (detail_with_changes (- 6) 3 25)) ''tok'' Map.empty
     = Inr (Some ?td, cache_result 0 (token_sentiment_key ''tok'') ?td 1800 Map.empty)"
    by (simp add: get_token_sentiment_def ok_env_def get_cached_result_def fetch_json_def
        bind_def try_except_def computed)
  have rules: "spec_signals (- 6) 3 25 = [''strong_sell'', ''buy_dip'', ''take_profit'']"
    by (simp add: spec_signals_def spec_rules_def)
  from trading_signals_follow_rules [OF fetched] parsed rules
  obtain ts where
    "get_trading_signals (ok_env 0 (detail_with_changes (- 6) 3 25)) ''tok'' Map.empty
     = Inr (Some ts, cache_result 0 (token_sentiment_key ''tok'') ?td 1800 Map.empty)"
    "map signal_signal (signals ts) = [''strong_sell'', ''buy_dip'', ''take_profit'']"
    by auto
  with fetched computed parsed show ?thesis by - (intro exI conjI, assumption+)
qed

section \<open>Yield entry recommendation: properties\<close>

lemma recommend_bearish:
  "sent_sentiment td = ''bearish'' \<or> sent_sentiment td = ''very bearish'' \<Longrightarrow>
   \<not> enter_now (recommend td ts) \<and> confidence (recommend td ts) = ''high''"
  by (auto simp: recommend_def Let_def)

text \<open>
  C5. When the sentiment and the signals are both returned and the sentiment label is
  bearish or very bearish, the recommendation has \<open>enter_now = False\<close> and confidence
  \<open>high\<close>, whatever the signals are.
\<close>

theorem bearish_sentiment_forces_wait:
  assumes "get_token_sentiment e1 token c = Inr (Some td, c1)"
    and "get_trading_signals e2 token c1 = Inr (Some ts, c2)"
    and "sent_sentiment td = ''bearish'' \<or> sent_sentiment td = ''very bearish''"
  shows "\<exists>r. get_yield_entry_recommendation e1 e2 token c = Inr (Some r, c2)
           \<and> \<not> enter_now r \<and> confidence r = ''high''"
  using assms recommend_bearish [of td ts]
  by (simp add: get_yield_entry_recommendation_def bind_def try_except_def)

theorem bearish_sentiment_forces_wait_witness:
  "\<exists>td c1 ts c2 r.
     get_token_sentiment (ok_env 0 (detail_with_changes 3 0 (- 40))) ''tok'' Map.empty
       = Inr (Some td, c1)
     \<and> sent_sentiment td = ''bearish''
     \<and> get_trading_signals (ok_env 1 (detail_with_changes 3 0 (- 40))) ''tok'' c1
         = Inr (Some ts, c2)
     \<and> map signal_signal (signals ts) = [''buy'', ''accumulate'']
     \<and> get_yield_entry_recommendation (ok_env 0 (detail_with_changes 3 0 (- 40)))
           (ok_env 1 (detail_with_changes 3 0 (- 40))) ''tok'' Map.empty = Inr (Some r, c2)
     \<and> \<not> enter_now r \<and> confidence r = ''high''"
proof -
  let ?td = "\<lparr>sent_name = Some ''Token'', sent_symbol = ''TOK'', sent_sentiment = ''bearish'',
    sent_price = ''$0.00'', sent_change_24h = ''3.00%'', sent_change_7d = ''0.00%'',
    sent_change_30d = ''-40.00%'', sent_market_cap = ''$0.00'', sent_volume_24h = ''$0.00''\<rparr>"
  let ?c1 = "cache_result 0 (token_sentiment_key ''tok'') ?td 1800 Map.empty"
  have computed: "token_sentiment_result (detail_with_changes 3 0 (- 40)) = Inr ?td"
    by code_simp
  have parsed: "parsed_changes ?td = Inr (3, 0, - 40)"
    by code_simp
  have fetched:
    "get_token_sentiment (ok_env 0 (detail_with_changes 3 0 (- 40))) ''tok'' Map.empty
     = Inr (Some ?td, ?c1)"
    by (simp add: get_token_sentiment_def ok_env_def get_cached_result_def fetch_json_def
        bind_def try_except_def computed)
  have cached:
    "get_token_sentiment (ok_env 1 (detail_with_changes 3 0 (- 40))) ''tok'' ?c1
     = Inr (Some ?td, ?c1)"
    by (simp add: get_token_sentiment_def ok_env_def get_after_put_fresh)
  from trading_signals_result_parsed [OF parsed] obtain ts where
    ts: "trading_signals_result ?td = Inr ts" "signals ts = generate_signals ?td 3 0 (- 40)"
    by blast
  have sigs: "get_trading_signals (ok_env 1 (detail_with_changes 3 0 (- 40))) ''tok'' ?c1
      = Inr (Some ts, ?c1)"
    by (simp add: get_trading_signals_of_sentiment [OF cached] ts(1))
  have names: "map signal_signal (signals ts) = [''buy'', ''accumulate'']"
    by (simp add: ts(2) generate_signals_spec spec_signals_def spec_rules_def)
  have label: "sent_sentiment ?td = ''bearish''" by simp
  from bearish_sentiment_forces_wait [OF fetched sigs] label
  obtain r where
    "get_yield_entry_recommendation (ok_env 0 (detail_with_changes 3 0 (- 40)))
       (ok_env 1 (detail_with_changes 3 0 (- 40))) ''tok'' Map.empty = Inr (Some r, ?c1)"
    "\<not> enter_now r" "confidence r = ''high''"
    by auto
  with fetched sigs names label show ?thesis by - (intro exI conjI, assumption+)
qed



section \<open>Sorting and slicing: properties\<close>

lemma set_insort_desc: "set (insort_desc key x ys) = insert x (set ys)"
  by (induction ys) auto




lemma sorted_insort_desc:
  "sorted_wrt (\<lambda>a b. key b \<le> key a) ys \<Longrightarrow>
   sorted_wrt (\<lambda>a b. key b \<le> key a) (insort_desc key x ys)"
  by (induction ys) (auto simp: set_insort_desc)

lemma sorted_sort_desc: "sorted_wrt (\<lambda>a b. key b \<le> key a) (sort_desc key xs)"
  by (induction xs) (simp_all add: sorted_insort_desc)

lemma filter_insort_desc:
  "sorted_wrt (\<lambda>a b. key b \<le> key a) ys \<Longrightarrow>
   filter (\<lambda>y. key y = k) (insort_desc key x ys)
   = (if key x = k then x # filter (\<lambda>y. key y = k) ys else filter (\<lambda>y. key y = k) ys)"
proof (induction ys)
  case Nil
  then show ?case by simp
next
  case (Cons y ys)
  then have "key x < key y \<Longrightarrow> key x = k \<Longrightarrow> key y \<noteq> k" by auto
  with Cons show ?case by auto
qed

text \<open>Elements of equal key keep their original order.\<close>

lemma sort_desc_stable:
  "filter (\<lambda>y. key y = k) (sort_desc key xs) = filter (\<lambda>y. key y = k) xs"
  by (induction xs) (simp_all add: filter_insort_desc sorted_sort_desc)





section \<open>Loops with exceptions: properties\<close>


lemma filter_exn_Inr:
  "filter_exn P xs = Inr ys \<Longrightarrow> ys = filter (\<lambda>x. P x = Inr True) xs"
  by (induction xs arbitrary: ys) (auto simp: bind_eq_Inr)

section \<open>Top yields: properties\<close>


lemma py_gt_Inr: "py_gt x k = Inr b \<longleftrightarrow> (\<exists>v. x = Some v \<and> b = (k < v))"
  by (cases x) (auto simp: py_gt_def)


section \<open>get_top_yields: properties\<close>












section \<open>The cached list operations: properties\<close>

lemma get_yield_by_protocol_hit:
  assumes "truthy_list (fst (get_cached_result (t_get e) (protocol_yields_key name limit) c))
           = Some rows"
  shows "get_yield_by_protocol cfg e name limit c
         = Inr (rows, snd (get_cached_result (t_get e) (protocol_yields_key name limit) c))"
  using assms by (simp add: get_yield_by_protocol_def Let_def split_beta)

lemma get_yield_by_protocol_miss:
  assumes "truthy_list (fst (get_cached_result (t_get e) (protocol_yields_key name limit) c))
           = None"
  shows "get_yield_by_protocol cfg e name limit c
         = (case fetch_json (reply e) of
              Inr (Some pools) \<Rightarrow>
                (case protocol_yields_results name limit pools of
                   Inr results \<Rightarrow>
                     Inr (results,
                       cache_result (t_put e) (protocol_yields_key name limit) results
                         (CACHE_TIMEOUT cfg)
                         (snd (get_cached_result (t_get e) (protocol_yields_key name limit) c)))
                 | Inl ex \<Rightarrow>
                     Inr ([], snd (get_cached_result (t_get e)
                                     (protocol_yields_key name limit) c)))
            | _ \<Rightarrow> Inr ([], snd (get_cached_result (t_get e)
                                    (protocol_yields_key name limit) c)))"
  using assms
  by (simp add: get_yield_by_protocol_def Let_def split_beta bind_def try_except_def
      any_Exception_def split: sum.splits option.splits)

lemma get_yield_by_chain_hit:
  assumes "truthy_list (fst (get_cached_result (t_get e) (chain_yields_key name limit) c))
           = Some rows"
  shows "get_yield_by_chain cfg e name limit c
         = Inr (rows, snd (get_cached_result (t_get e) (chain_yields_key name limit) c))"
  using assms by (simp add: get_yield_by_chain_def Let_def split_beta)

lemma get_yield_by_chain_miss:
  assumes "truthy_list (fst (get_cached_result (t_get e) (chain_yields_key name limit) c))
           = None"
  shows "get_yield_by_chain cfg e name limit c
         = (case fetch_json (reply e) of
              Inr (Some pools) \<Rightarrow>
                (case chain_yields_results name limit pools of
                   Inr results \<Rightarrow>
                     Inr (results,
                       cache_result (t_put e) (chain_yields_key name limit) results
                         (CACHE_TIMEOUT cfg)
                         (snd (get_cached_result (t_get e) (chain_yields_key name limit) c)))
                 | Inl ex \<Rightarrow>
                     Inr ([], snd (get_cached_result (t_get e)
                                     (chain_yields_key name limit) c)))
            | _ \<Rightarrow> Inr ([], snd (get_cached_result (t_get e)
                                    (chain_yields_key name limit) c)))"
  using assms
  by (simp add: get_yield_by_chain_def Let_def split_beta bind_def try_except_def
      any_Exception_def split: sum.splits option.splits)

lemma get_top_yields_miss_any:
  assumes "truthy_list (fst (get_cached_result (t_get e) (top_yields_key limit min_tvl chain) c))
           = None"
  shows "get_top_yields cfg e limit min_tvl chain c
         = (case fetch_json (reply e) of
              Inr (Some pools) \<Rightarrow>
                (case top_yields_results limit min_tvl chain pools of
                   Inr results \<Rightarrow>
                     Inr (results,
                       cache_result (t_put e) (top_yields_key limit min_tvl chain) results
                         (CACHE_TIMEOUT cfg)
                         (snd (get_cached_result (t_get e)
                                 (top_yields_key limit min_tvl chain) c)))
                 | Inl ex \<Rightarrow>
                     Inr ([], snd (get_cached_result (t_get e)
                                     (top_yields_key limit min_tvl chain) c)))
            | _ \<Rightarrow> Inr ([], snd (get_cached_result (t_get e)
                                    (top_yields_key limit min_tvl chain) c)))"
  using assms
  by (simp add: get_top_yields_def Let_def split_beta bind_def try_except_def
      any_Exception_def split: sum.splits option.splits)

lemma fetch_json_ok: "fetch_json (Reply 200 (Some d)) = Inr (Some d)"
  by (simp add: fetch_json_def)

lemma empty_list_is_a_miss:
  "truthy_list (fst (get_cached_result t key (cache_result t0 key [] ttl c))) = None"
  by (simp add: get_cached_result_def cache_result_def truthy_list_def)

lemma snd_get_after_put_empty:
  "t < t0 + ttl \<Longrightarrow>
   snd (get_cached_result t key (cache_result t0 key v ttl c)) = cache_result t0 key v ttl c"
  by (simp add: get_after_put_fresh)


lemma get_top_yields_refetches_after_empty:
  assumes "truthy_list (fst (get_cached_result (t_get e) (top_yields_key limit min_tvl chain) c)) = None"
    and "reply e = Reply 200 (Some pools)"
    and "top_yields_results limit min_tvl chain pools = Inr []"
  shows "(\<exists>c2. get_top_yields cfg e limit min_tvl chain c = Inr ([], c2)
       \<and> c2 (top_yields_key limit min_tvl chain)
           = Some \<lparr>data = [], expires = t_put e + CACHE_TIMEOUT cfg\<rparr>
       \<and> (t_get e_next < t_put e + CACHE_TIMEOUT cfg \<longrightarrow>
            get_cached_result (t_get e_next) (top_yields_key limit min_tvl chain) c2 = (Some [], c2))
       \<and> (reply e_next = Reply 200 (Some pools_next) \<longrightarrow>
            map_sum id fst (get_top_yields cfg e_next limit min_tvl chain c2)
            = (case top_yields_results limit min_tvl chain pools_next of Inr rows \<Rightarrow> Inr rows | Inl ex \<Rightarrow> Inr [])))"
proof -
  define c2 where "c2 = cache_result (t_put e) (top_yields_key limit min_tvl chain) [] (CACHE_TIMEOUT cfg)
      (snd (get_cached_result (t_get e) (top_yields_key limit min_tvl chain) c))"
  have first: "get_top_yields cfg e limit min_tvl chain c = Inr ([], c2)"
    using assms by (simp add: get_top_yields_miss_any fetch_json_ok c2_def)
  have stored: "c2 (top_yields_key limit min_tvl chain)
      = Some \<lparr>data = [], expires = t_put e + CACHE_TIMEOUT cfg\<rparr>"
    by (simp add: c2_def cache_result_def)
  have found: "t_get e_next < t_put e + CACHE_TIMEOUT cfg \<Longrightarrow>
      get_cached_result (t_get e_next) (top_yields_key limit min_tvl chain) c2 = (Some [], c2)"
    by (simp add: c2_def get_after_put_fresh)
  have again: "reply e_next = Reply 200 (Some pools_next) \<Longrightarrow>
      map_sum id fst (get_top_yields cfg e_next limit min_tvl chain c2)
      = (case top_yields_results limit min_tvl chain pools_next of Inr rows \<Rightarrow> Inr rows | Inl ex \<Rightarrow> Inr [])"
    by (simp add: c2_def get_top_yields_miss_any empty_list_is_a_miss fetch_json_ok split: sum.splits)
  from first stored found again show ?thesis by blast
qed

lemma get_yield_by_protocol_refetches_after_empty:
  assumes "truthy_list (fst (get_cached_result (t_get e) (protocol_yields_key name limit) c)) = None"
    and "reply e = Reply 200 (Some pools)"
    and "protocol_yields_results name limit pools = Inr []"
  shows "(\<exists>c2. get_yield_by_protocol cfg e name limit c = Inr ([], c2)
       \<and> c2 (protocol_yields_key name limit)
           = Some \<lparr>data = [], expires = t_put e + CACHE_TIMEOUT cfg\<rparr>
       \<and> (t_get e_next < t_put e + CACHE_TIMEOUT cfg \<longrightarrow>
            get_cached_result (t_get e_next) (protocol_yields_key name limit) c2 = (Some [], c2))
       \<and> (reply e_next = Reply 200 (Some pools_next) \<longrightarrow>
            map_sum id fst (get_yield_by_protocol cfg e_next name limit c2)
            = (case protocol_yields_results name limit pools_next of Inr rows \<Rightarrow> Inr rows | Inl ex \<Rightarrow> Inr [])))"
proof -
  define c2 where "c2 = cache_result (t_put e) (protocol_yields_key name limit) [] (CACHE_TIMEOUT cfg)
      (snd (get_cached_result (t_get e) (protocol_yields_key name limit) c))"
  have first: "get_yield_by_protocol cfg e name limit c = Inr ([], c2)"
    using assms by (simp add: get_yield_by_protocol_miss fetch_json_ok c2_def)
  have stored: "c2 (protocol_yields_key name limit)
      = Some \<lparr>data = [], expires = t_put e + CACHE_TIMEOUT cfg\<rparr>"
    by (simp add: c2_def cache_result_def)
  have found: "t_get e_next < t_put e + CACHE_TIMEOUT cfg \<Longrightarrow>
      get_cached_result (t_get e_next) (protocol_yields_key name limit) c2 = (Some [], c2)"
    by (simp add: c2_def get_after_put_fresh)
  have again: "reply e_next = Reply 200 (Some pools_next) \<Longrightarrow>
      map_sum id fst (get_yield_by_protocol cfg e_next name limit c2)
      = (case protocol_yields_results name limit pools_next of Inr rows \<Rightarrow> Inr rows | Inl ex \<Rightarrow> Inr [])"
    by (simp add: c2_def get_yield_by_protocol_miss empty_list_is_a_miss fetch_json_ok split: sum.splits)
  from first stored found again show ?thesis by blast
qed

lemma get_yield_by_chain_refetches_after_empty:
  assumes "truthy_list (fst (get_cached_result (t_get e) (chain_yields_key name limit) c)) = None"
    and "reply e = Reply 200 (Some pools)"
    and "chain_yields_results name limit pools = Inr []"
  shows "(\<exists>c2. get_yield_by_chain cfg e name limit c = Inr ([], c2)
       \<and> c2 (chain_yields_key name limit)
           = Some \<lparr>data = [], expires = t_put e + CACHE_TIMEOUT cfg\<rparr>
       \<and> (t_get e_next < t_put e + CACHE_TIMEOUT cfg \<longrightarrow>
            get_cached_result (t_get e_next) (chain_yields_key name limit) c2 = (Some [], c2))
       \<and> (reply e_next = Reply 200 (Some pools_next) \<longrightarrow>
            map_sum id fst (get_yield_by_chain cfg e_next name limit c2)
            = (case chain_yields_results name limit pools_next of Inr rows \<Rightarrow> Inr rows | Inl ex \<Rightarrow> Inr [])))"
proof -
  define c2 where "c2 = cache_result (t_put e) (chain_yields_key name limit) [] (CACHE_TIMEOUT cfg)
      (snd (get_cached_result (t_get e) (chain_yields_key name limit) c))"
  have first: "get_yield_by_chain cfg e name limit c = Inr ([], c2)"
    using assms by (simp add: get_yield_by_chain_miss fetch_json_ok c2_def)
  have stored: "c2 (chain_yields_key name limit)
      = Some \<lparr>data = [], expires = t_put e + CACHE_TIMEOUT cfg\<rparr>"
    by (simp add: c2_def cache_result_def)
  have found: "t_get e_next < t_put e + CACHE_TIMEOUT cfg \<Longrightarrow>
      get_cached_result (t_get e_next) (chain_yields_key name limit) c2 = (Some [], c2)"
    by (simp add: c2_def get_after_put_fresh)
  have again: "reply e_next = Reply 200 (Some pools_next) \<Longrightarrow>
      map_sum id fst (get_yield_by_chain cfg e_next name limit c2)
      = (case chain_yields_results name limit pools_next of Inr rows \<Rightarrow> Inr rows | Inl ex \<Rightarrow> Inr [])"
    by (simp add: c2_def get_yield_by_chain_miss empty_list_is_a_miss fetch_json_ok split: sum.splits)
  from first stored found again show ?thesis by blast
qed

text \<open>
  C10. For each of the three caching list operations: when the lookup misses and the
  provider's listing gives an empty result, the empty list is returned and stored: the
  cache left behind holds, under the key of the call, the empty list with the expiry
  time of the store plus the cache lifetime. A lookup of that key before the expiry
  finds the entry and reads the empty list from it. A following call with the same
  arguments, at any time and so before the expiry too, nevertheless does not return it:
  its records are those computed from the listing the provider answers to that call.
\<close>

theorem cached_empty_list_is_refetched:
  "(truthy_list (fst (get_cached_result (t_get e) (top_yields_key limit min_tvl chain) c)) = None
      \<and> reply e = Reply 200 (Some pools)
      \<and> top_yields_results limit min_tvl chain pools = Inr [] \<longrightarrow>
      (\<exists>c2. get_top_yields cfg e limit min_tvl chain c = Inr ([], c2)
         \<and> c2 (top_yields_key limit min_tvl chain)
             = Some \<lparr>data = [], expires = t_put e + CACHE_TIMEOUT cfg\<rparr>
         \<and> (t_get e_next < t_put e + CACHE_TIMEOUT cfg \<longrightarrow>
              get_cached_result (t_get e_next) (top_yields_key limit min_tvl chain) c2 = (Some [], c2))
         \<and> (reply e_next = Reply 200 (Some pools_next) \<longrightarrow>
              map_sum id fst (get_top_yields cfg e_next limit min_tvl chain c2)
              = (case top_yields_results limit min_tvl chain pools_next of Inr rows \<Rightarrow> Inr rows | Inl ex \<Rightarrow> Inr []))))
   \<and> (truthy_list (fst (get_cached_result (t_get e) (protocol_yields_key name limit) pc)) = None
      \<and> reply e = Reply 200 (Some pools)
      \<and> protocol_yields_results name limit pools = Inr [] \<longrightarrow>
      (\<exists>c3. get_yield_by_protocol cfg e name limit pc = Inr ([], c3)
         \<and> c3 (protocol_yields_key name limit)
             = Some \<lparr>data = [], expires = t_put e + CACHE_TIMEOUT cfg\<rparr>
         \<and> (t_get e_next < t_put e + CACHE_TIMEOUT cfg \<longrightarrow>
              get_cached_result (t_get e_next) (protocol_yields_key name limit) c3 = (Some [], c3))
         \<and> (reply e_next = Reply 200 (Some pools_next) \<longrightarrow>
              map_sum id fst (get_yield_by_protocol cfg e_next name limit c3)
              = (case protocol_yields_results name limit pools_next of Inr rows \<Rightarrow> Inr rows | Inl ex \<Rightarrow> Inr []))))
   \<and> (truthy_list (fst (get_cached_result (t_get e) (chain_yields_key name limit) cc)) = None
      \<and> reply e = Reply 200 (Some pools)
      \<and> chain_yields_results name limit pools = Inr [] \<longrightarrow>
      (\<exists>c4. get_yield_by_chain cfg e name limit cc = Inr ([], c4)
         \<and> c4 (chain_yields_key name limit)
             = Some \<lparr>data = [], expires = t_put e + CACHE_TIMEOUT cfg\<rparr>
         \<and> (t_get e_next < t_put e + CACHE_TIMEOUT cfg \<longrightarrow>
              get_cached_result (t_get e_next) (chain_yields_key name limit) c4 = (Some [], c4))
         \<and> (reply e_next = Reply 200 (Some pools_next) \<longrightarrow>
              map_sum id fst (get_yield_by_chain cfg e_next name limit c4)
              = (case chain_yields_results name limit pools_next of Inr rows \<Rightarrow> Inr rows | Inl ex \<Rightarrow> Inr []))))"
  using
    get_top_yields_refetches_after_empty
      [where e = e and limit = limit and min_tvl = min_tvl and chain = chain and c = c
         and pools = pools and e_next = e_next and pools_next = pools_next and cfg = cfg]
    get_yield_by_protocol_refetches_after_empty
      [where e = e and name = name and limit = limit and c = pc
         and pools = pools and e_next = e_next and pools_next = pools_next and cfg = cfg]
    get_yield_by_chain_refetches_after_empty
      [where e = e and name = name and limit = limit and c = cc
         and pools = pools and e_next = e_next and pools_next = pools_next and cfg = cfg]
  by blast

theorem cached_empty_list_is_refetched_witness:
  "(\<exists>c2. get_top_yields cfg300 (ok_env 0 []) 5 1000000 None Map.empty = Inr ([], c2)
      \<and> c2 (top_yields_key 5 1000000 None) = Some \<lparr>data = [], expires = 300\<rparr>
      \<and> get_cached_result 1 (top_yields_key 5 1000000 None) c2 = (Some [], c2)
      \<and> map_sum id fst (get_top_yields cfg300 (ok_env 1 [aave_pool]) 5 1000000 None c2) = Inr [aave_row])
   \<and> (\<exists>c3. get_yield_by_protocol cfg300 (ok_env 0 []) ''aave'' 5 Map.empty = Inr ([], c3)
      \<and> c3 (protocol_yields_key ''aave'' 5) = Some \<lparr>data = [], expires = 300\<rparr>
      \<and> get_cached_result 1 (protocol_yields_key ''aave'' 5) c3 = (Some [], c3)
      \<and> map_sum id fst (get_yield_by_protocol cfg300 (ok_env 1 [aave_pool]) ''aave'' 5 c3) = Inr [protocol_row ''aave'' aave_pool])
   \<and> (\<exists>c4. get_yield_by_chain cfg300 (ok_env 0 []) ''ethereum'' 5 Map.empty = Inr ([], c4)
      \<and> c4 (chain_yields_key ''ethereum'' 5) = Some \<lparr>data = [], expires = 300\<rparr>
      \<and> get_cached_result 1 (chain_yields_key ''ethereum'' 5) c4 = (Some [], c4)
      \<and> map_sum id fst (get_yield_by_chain cfg300 (ok_env 1 [aave_pool]) ''ethereum'' 5 c4) = Inr [chain_row ''ethereum'' aave_pool])"
proof -
  have miss: "truthy_list (fst (get_cached_result (t_get (ok_env 0 ([]::pool list))) k
      (Map.empty :: (string, 'r list) cache))) = None" for k
    by (simp add: get_cached_result_def truthy_list_def)
  have first: "reply (ok_env 0 ([]::pool list)) = Reply 200 (Some [])"
    and clock: "t_put (ok_env 0 ([]::pool list)) = 0" "CACHE_TIMEOUT cfg300 = 300"
      "t_get (ok_env 1 [aave_pool]) = 1"
    and "next": "reply (ok_env 1 [aave_pool]) = Reply 200 (Some [aave_pool])"
    by (simp_all add: ok_env_def cfg300_def)
  have empty: "top_yields_results 5 1000000 None [] = Inr []"
    "protocol_yields_results ''aave'' 5 [] = Inr []"
    "chain_yields_results ''ethereum'' 5 [] = Inr []"
    by code_simp+
  have full: "top_yields_results 5 1000000 None [aave_pool] = Inr [aave_row]"
    "protocol_yields_results ''aave'' 5 [aave_pool] = Inr [protocol_row ''aave'' aave_pool]"
    "chain_yields_results ''ethereum'' 5 [aave_pool] = Inr [chain_row ''ethereum'' aave_pool]"
    by code_simp+
  from cached_empty_list_is_refetched
    [where e = "ok_env 0 []" and limit = 5 and min_tvl = 1000000 and chain = None
       and c = Map.empty and pools = "[]" and cfg = cfg300 and e_next = "ok_env 1 [aave_pool]"
       and pools_next = "[aave_pool]" and name = "''aave''" and pc = Map.empty
       and cc = Map.empty]
    cached_empty_list_is_refetched
    [where e = "ok_env 0 []" and limit = 5 and min_tvl = 1000000 and chain = None
       and c = Map.empty and pools = "[]" and cfg = cfg300 and e_next = "ok_env 1 [aave_pool]"
       and pools_next = "[aave_pool]" and name = "''ethereum''" and pc = Map.empty
       and cc = Map.empty]
  show ?thesis
    by (simp add: miss first clock "next" empty full)
qed

section \<open>get_yield_recommendations: properties\<close>














section \<open>Failure policy: properties\<close>

lemma try_except_any:
  "try_except m any_Exception h = (case m of Inr x \<Rightarrow> Inr x | Inl ex \<Rightarrow> h ex)"
  by (simp add: try_except_def any_Exception_def split: sum.splits)

lemma fetch_failed_cases:
  "fetch_failed r \<Longrightarrow> fetch_json r = Inr None \<or> (\<exists>ex. fetch_json r = Inl ex)"
  by (auto simp: fetch_failed_def split: sum.splits option.splits)

lemma get_top_yields_never_raises:
  "\<exists>rows c'. get_top_yields cfg e limit min_tvl chain c = Inr (rows, c')"
  by (auto simp: get_top_yields_def Let_def split_beta try_except_any bind_def
      split: option.splits sum.splits)

lemma get_yield_by_protocol_never_raises:
  "\<exists>rows c'. get_yield_by_protocol cfg e name limit c = Inr (rows, c')"
  by (auto simp: get_yield_by_protocol_def Let_def split_beta try_except_any bind_def
      split: option.splits sum.splits)

lemma get_yield_by_chain_never_raises:
  "\<exists>rows c'. get_yield_by_chain cfg e name limit c = Inr (rows, c')"
  by (auto simp: get_yield_by_chain_def Let_def split_beta try_except_any bind_def
      split: option.splits sum.splits)

lemma get_yield_recommendations_never_raises:
  "\<exists>rows. get_yield_recommendations r risk_tolerance min_tvl limit = Inr rows"
  by (auto simp: get_yield_recommendations_def Let_def try_except_any bind_def
      split: option.splits sum.splits)

lemma get_token_price_never_raises:
  "\<exists>r c'. get_token_price e token c = Inr (r, c')"
  by (auto simp: get_token_price_def Let_def split_beta try_except_any bind_def
      split: option.splits sum.splits)

lemma get_market_sentiment_never_raises:
  "\<exists>r c'. get_market_sentiment e c = Inr (r, c')"
  by (auto simp: get_market_sentiment_def Let_def split_beta try_except_any bind_def
      split: option.splits sum.splits)

lemma get_token_sentiment_never_raises:
  "\<exists>r c'. get_token_sentiment e token c = Inr (r, c')"
  by (auto simp: get_token_sentiment_def Let_def split_beta try_except_any bind_def
      split: option.splits sum.splits)

lemma get_trading_signals_never_raises:
  "\<exists>r c'. get_trading_signals e token c = Inr (r, c')"
  using get_token_sentiment_never_raises [of e token c]
  by (auto simp: get_trading_signals_def try_except_any bind_def
      split: option.splits sum.splits)

lemma get_yield_entry_recommendation_never_raises:
  "\<exists>r c'. get_yield_entry_recommendation e1 e2 token c = Inr (r, c')"
proof -
  obtain td c1 where "get_token_sentiment e1 token c = Inr (td, c1)"
    using get_token_sentiment_never_raises by blast
  moreover obtain ts c2 where "get_trading_signals e2 token c1 = Inr (ts, c2)"
    using get_trading_signals_never_raises by blast
  ultimately show ?thesis
    by (auto simp: get_yield_entry_recommendation_def try_except_any bind_def
        split: option.splits)
qed

lemma get_yield_comparison_never_raises:
  "\<exists>r c'. get_yield_comparison cfg e1 e2 p1 p2 c = Inr (r, c')"
proof -
  obtain ys1 c1 where "get_yield_by_protocol cfg e1 p1 5 c = Inr (ys1, c1)"
    using get_yield_by_protocol_never_raises by blast
  moreover obtain ys2 c2 where "get_yield_by_protocol cfg e2 p2 5 c1 = Inr (ys2, c2)"
    using get_yield_by_protocol_never_raises by blast
  ultimately show ?thesis
    by (auto simp: get_yield_comparison_def try_except_any bind_def split: sum.splits)
qed


lemma get_top_yields_sentinel:
  assumes "truthy_list (fst (get_cached_result (t_get e) (top_yields_key limit min_tvl chain) c)) = None"
    and "fetch_failed (reply e)
         \<or> (\<exists>pools ex. fetch_json (reply e) = Inr (Some pools)
               \<and> top_yields_results limit min_tvl chain pools = Inl ex)"
  shows "get_top_yields cfg e limit min_tvl chain c = Inr ([], snd (get_cached_result (t_get e) (top_yields_key limit min_tvl chain) c))"
  using assms(2)
  by (auto simp: get_top_yields_miss_any [OF assms(1)] fetch_failed_def
      split: sum.splits option.splits)

lemma get_yield_by_protocol_sentinel:
  assumes "truthy_list (fst (get_cached_result (t_get e) (protocol_yields_key name limit) c)) = None"
    and "fetch_failed (reply e)
         \<or> (\<exists>pools ex. fetch_json (reply e) = Inr (Some pools)
               \<and> protocol_yields_results name limit pools = Inl ex)"
  shows "get_yield_by_protocol cfg e name limit c = Inr ([], snd (get_cached_result (t_get e) (protocol_yields_key name limit) c))"
  using assms(2)
  by (auto simp: get_yield_by_protocol_miss [OF assms(1)] fetch_failed_def
      split: sum.splits option.splits)

lemma get_yield_by_chain_sentinel:
  assumes "truthy_list (fst (get_cached_result (t_get e) (chain_yields_key name limit) c)) = None"
    and "fetch_failed (reply e)
         \<or> (\<exists>pools ex. fetch_json (reply e) = Inr (Some pools)
               \<and> chain_yields_results name limit pools = Inl ex)"
  shows "get_yield_by_chain cfg e name limit c = Inr ([], snd (get_cached_result (t_get e) (chain_yields_key name limit) c))"
  using assms(2)
  by (auto simp: get_yield_by_chain_miss [OF assms(1)] fetch_failed_def
      split: sum.splits option.splits)

lemma get_yield_recommendations_sentinel:
  assumes "fetch_failed r
         \<or> (\<exists>pools ex. fetch_json r = Inr (Some pools)
               \<and> recommended_pools (params_for risk_tolerance) limit pools = Inl ex)"
  shows "get_yield_recommendations r risk_tolerance min_tvl limit = Inr []"
  using assms
proof
  assume "fetch_failed r"
  then show ?thesis
    by (auto simp: get_yield_recommendations_def try_except_any bind_def
        dest!: fetch_failed_cases)
next
  assume "\<exists>pools ex. fetch_json r = Inr (Some pools)
      \<and> recommended_pools (params_for risk_tolerance) limit pools = Inl ex"
  then show ?thesis
    by (auto simp: get_yield_recommendations_def try_except_any bind_def)
qed

lemma get_token_price_sentinel:
  assumes "fst (get_cached_result (t_get e) (token_price_key token) c) = None"
    and "fetch_failed (reply e)
         \<or> (\<exists>d. fetch_json (reply e) = Inr (Some d) \<and> d token = None)"
  shows "get_token_price e token c
         = Inr (None, snd (get_cached_result (t_get e) (token_price_key token) c))"
  using assms
  by (auto simp: get_token_price_def Let_def split_beta try_except_any fetch_failed_def
      bind_def split: sum.splits option.splits)

lemma get_market_sentiment_sentinel:
  assumes "fst (get_cached_result (t_get e) ''market_sentiment'' c) = None"
    and "fetch_failed (reply e)
         \<or> (\<exists>d ex. fetch_json (reply e) = Inr (Some d) \<and> market_sentiment_result d = Inl ex)"
  shows "get_market_sentiment e c
         = Inr (None, snd (get_cached_result (t_get e) ''market_sentiment'' c))"
  using assms
  by (auto simp: get_market_sentiment_def Let_def split_beta try_except_any fetch_failed_def
      bind_def split: sum.splits option.splits)

lemma get_token_sentiment_sentinel:
  assumes "fst (get_cached_result (t_get e) (token_sentiment_key token) c) = None"
    and "fetch_failed (reply e)
         \<or> (\<exists>d ex. fetch_json (reply e) = Inr (Some d) \<and> token_sentiment_result d = Inl ex)"
  shows "get_token_sentiment e token c
         = Inr (None, snd (get_cached_result (t_get e) (token_sentiment_key token) c))"
  using assms
  by (auto simp: get_token_sentiment_def Let_def split_beta try_except_any fetch_failed_def
      bind_def split: sum.splits option.splits)

lemma get_trading_signals_sentinel:
  assumes "get_token_sentiment e token c = Inr (None, c1)
         \<or> (\<exists>td ex. get_token_sentiment e token c = Inr (Some td, c1)
               \<and> trading_signals_result td = Inl ex)"
  shows "get_trading_signals e token c = Inr (None, c1)"
  using assms
  by (auto simp: get_trading_signals_def try_except_any bind_def)

lemma get_yield_entry_recommendation_sentinel:
  assumes "get_token_sentiment e1 token c = Inr (td, c1)"
    and "get_trading_signals e2 token c1 = Inr (ts, c2)"
    and "td = None \<or> ts = None"
  shows "get_yield_entry_recommendation e1 e2 token c = Inr (None, c2)"
  using assms
  by (auto simp: get_yield_entry_recommendation_def bind_def split: option.splits)

lemma format_zero: "format_percentage (Some 0) = ''0.00%''"
  by code_simp

lemma get_yield_comparison_on_failure:
  assumes "truthy_list (fst (get_cached_result (t_get e1) (protocol_yields_key p1 5) c)) = None"
    and "fetch_failed (reply e1)"
    and "truthy_list (fst (get_cached_result (t_get e2) (protocol_yields_key p2 5)
           (snd (get_cached_result (t_get e1) (protocol_yields_key p1 5) c)))) = None"
    and "fetch_failed (reply e2)"
  shows "get_yield_comparison cfg e1 e2 p1 p2 c
         = Inr (Compared
                  \<lparr>protocol1 = p1, protocol1_avg_apy = ''0.00%'', protocol1_pools = 0,
                   protocol2 = p2, protocol2_avg_apy = ''0.00%'', protocol2_pools = 0,
                   difference = ''0.00%'', winner = p2\<rparr>,
                snd (get_cached_result (t_get e2) (protocol_yields_key p2 5)
                  (snd (get_cached_result (t_get e1) (protocol_yields_key p1 5) c))))"
  by (simp add: get_yield_comparison_def
      get_yield_by_protocol_sentinel [OF assms(1), of cfg, OF disjI1, OF assms(2)]
      get_yield_by_protocol_sentinel [OF assms(3), of cfg, OF disjI1, OF assms(4)]
      bind_def try_except_any compare_means_def mean_apy_def format_zero)

lemma get_yield_comparison_on_exception:
  assumes "get_yield_by_protocol cfg e1 p1 5 c = Inr (ys1, c1)"
    and "get_yield_by_protocol cfg e2 p2 5 c1 = Inr (ys2, c2)"
    and "compare_means p1 ys1 p2 ys2 = Inl ex"
  shows "get_yield_comparison cfg e1 e2 p1 p2 c = Inr (Compare_failed p1 p2 ex, c2)"
  using assms by (simp add: get_yield_comparison_def bind_def try_except_any)


lemmas never_raises =
  get_top_yields_never_raises get_yield_by_protocol_never_raises
  get_yield_by_chain_never_raises get_yield_recommendations_never_raises
  get_token_price_never_raises get_market_sentiment_never_raises
  get_token_sentiment_never_raises get_trading_signals_never_raises
  get_yield_entry_recommendation_never_raises get_yield_comparison_never_raises

lemmas cached_sentinels =
  get_top_yields_sentinel get_yield_by_protocol_sentinel get_yield_by_chain_sentinel
  get_token_price_sentinel get_market_sentiment_sentinel get_token_sentiment_sentinel

text \<open>
  C6, as amended. No operation raises. After a cache miss, a request that gives no decoded
  body, or an exception while the body is processed, makes the four list operations return
  the empty list and \<open>get_token_price\<close>, \<open>get_market_sentiment\<close> and
  \<open>get_token_sentiment\<close> return \<open>None\<close>; \<open>get_trading_signals\<close> and
  \<open>get_yield_entry_recommendation\<close> return \<open>None\<close> when a result they build on is
  \<open>None\<close> or unreadable. \<open>get_yield_comparison\<close> always returns a record: the
  comparison with both means at zero and the second protocol as winner when both
  requests fail, and the record with the key \<open>error\<close> when a mean cannot be computed.
\<close>

theorem failures_give_sentinels:
  "(\<exists>rows c'. get_top_yields cfg e limit min_tvl chain ct = Inr (rows, c'))
   \<and> (truthy_list (fst (get_cached_result (t_get e) (top_yields_key limit min_tvl chain) ct))
        = None
      \<and> (fetch_failed (reply e)
         \<or> (\<exists>pools ex. fetch_json (reply e) = Inr (Some pools)
               \<and> top_yields_results limit min_tvl chain pools = Inl ex)) \<longrightarrow>
      get_top_yields cfg e limit min_tvl chain ct
        = Inr ([], snd (get_cached_result (t_get e) (top_yields_key limit min_tvl chain) ct)))
   \<and> (\<exists>rows c'. get_yield_by_protocol cfg e name limit cp = Inr (rows, c'))
   \<and> (truthy_list (fst (get_cached_result (t_get e) (protocol_yields_key name limit) cp))
        = None
      \<and> (fetch_failed (reply e)
         \<or> (\<exists>pools ex. fetch_json (reply e) = Inr (Some pools)
               \<and> protocol_yields_results name limit pools = Inl ex)) \<longrightarrow>
      get_yield_by_protocol cfg e name limit cp
        = Inr ([], snd (get_cached_result (t_get e) (protocol_yields_key name limit) cp)))
   \<and> (\<exists>rows c'. get_yield_by_chain cfg e name limit cc = Inr (rows, c'))
   \<and> (truthy_list (fst (get_cached_result (t_get e) (chain_yields_key name limit) cc))
        = None
      \<and> (fetch_failed (reply e)
         \<or> (\<exists>pools ex. fetch_json (reply e) = Inr (Some pools)
               \<and> chain_yields_results name limit pools = Inl ex)) \<longrightarrow>
      get_yield_by_chain cfg e name limit cc
        = Inr ([], snd (get_cached_result (t_get e) (chain_yields_key name limit) cc)))
   \<and> (\<exists>rows. get_yield_recommendations (reply e) risk_tolerance min_tvl limit = Inr rows)
   \<and> (fetch_failed (reply e)
       \<or> (\<exists>pools ex. fetch_json (reply e) = Inr (Some pools)
             \<and> recommended_pools (params_for risk_tolerance) limit pools = Inl ex) \<longrightarrow>
      get_yield_recommendations (reply e) risk_tolerance min_tvl limit = Inr [])
   \<and> (\<exists>r c'. get_token_price eq token cq = Inr (r, c'))
   \<and> (fst (get_cached_result (t_get eq) (token_price_key token) cq) = None
      \<and> (fetch_failed (reply eq)
         \<or> (\<exists>d. fetch_json (reply eq) = Inr (Some d) \<and> d token = None)) \<longrightarrow>
      get_token_price eq token cq
        = Inr (None, snd (get_cached_result (t_get eq) (token_price_key token) cq)))
   \<and> (\<exists>r c'. get_market_sentiment em cm = Inr (r, c'))
   \<and> (fst (get_cached_result (t_get em) ''market_sentiment'' cm) = None
      \<and> (fetch_failed (reply em)
         \<or> (\<exists>d ex. fetch_json (reply em) = Inr (Some d)
               \<and> market_sentiment_result d = Inl ex)) \<longrightarrow>
      get_market_sentiment em cm
        = Inr (None, snd (get_cached_result (t_get em) ''market_sentiment'' cm)))
   \<and> (\<exists>r c'. get_token_sentiment ed token cs = Inr (r, c'))
   \<and> (fst (get_cached_result (t_get ed) (token_sentiment_key token) cs) = None
      \<and> (fetch_failed (reply ed)
         \<or> (\<exists>d ex. fetch_json (reply ed) = Inr (Some d)
               \<and> token_sentiment_result d = Inl ex)) \<longrightarrow>
      get_token_sentiment ed token cs
        = Inr (None, snd (get_cached_result (t_get ed) (token_sentiment_key token) cs)))
   \<and> (\<exists>r c'. get_trading_signals ed token cs = Inr (r, c'))
   \<and> (get_token_sentiment ed token cs = Inr (None, cs')
       \<or> (\<exists>td ex. get_token_sentiment ed token cs = Inr (Some td, cs')
             \<and> trading_signals_result td = Inl ex) \<longrightarrow>
      get_trading_signals ed token cs = Inr (None, cs'))
   \<and> (\<exists>r c'. get_yield_entry_recommendation ed ed' token cs = Inr (r, c'))
   \<and> (get_token_sentiment ed token cs = Inr (td, cs')
      \<and> get_trading_signals ed' token cs' = Inr (ts, cs'')
      \<and> (td = None \<or> ts = None) \<longrightarrow>
      get_yield_entry_recommendation ed ed' token cs = Inr (None, cs''))
   \<and> (\<exists>r c'. get_yield_comparison cfg e e' name name' cp = Inr (r, c'))
   \<and> (truthy_list (fst (get_cached_result (t_get e) (protocol_yields_key name 5) cp)) = None
      \<and> fetch_failed (reply e)
      \<and> truthy_list (fst (get_cached_result (t_get e') (protocol_yields_key name' 5)
           (snd (get_cached_result (t_get e) (protocol_yields_key name 5) cp)))) = None
      \<and> fetch_failed (reply e') \<longrightarrow>
      get_yield_comparison cfg e e' name name' cp
        = Inr (Compared
                 \<lparr>protocol1 = name, protocol1_avg_apy = ''0.00%'', protocol1_pools = 0,
                  protocol2 = name', protocol2_avg_apy = ''0.00%'', protocol2_pools = 0,
                  difference = ''0.00%'', winner = name'\<rparr>,
               snd (get_cached_result (t_get e') (protocol_yields_key name' 5)
                 (snd (get_cached_result (t_get e) (protocol_yields_key name 5) cp)))))
   \<and> (get_yield_by_protocol cfg e name 5 cp = Inr (ys, cp')
      \<and> get_yield_by_protocol cfg e' name' 5 cp' = Inr (ys', cp'')
      \<and> compare_means name ys name' ys' = Inl ex \<longrightarrow>
      get_yield_comparison cfg e e' name name' cp
        = Inr (Compare_failed name name' ex, cp''))"
  by (intro conjI impI; (elim conjE)?;
      (rule never_raises
       | erule (3) get_yield_comparison_on_failure
       | erule (2) get_yield_comparison_on_exception
       | erule (2) get_yield_entry_recommendation_sentinel
       | erule (1) cached_sentinels
       | erule get_yield_recommendations_sentinel get_trading_signals_sentinel))


text \<open>
  C6 as stated fails for \<open>get_yield_comparison\<close>: with both requests answered 500 it
  returns a full comparison, and with a \<open>null\<close> apy in the listing it returns the record
  with the key \<open>error\<close>; in neither case an absent value.
\<close>

theorem comparison_is_never_absent_counterexample:
  "get_yield_comparison cfg300 (down_env 0) (down_env 0) ''aave'' ''compound'' Map.empty
   = Inr (Compared
            \<lparr>protocol1 = ''aave'', protocol1_avg_apy = ''0.00%'', protocol1_pools = 0,
             protocol2 = ''compound'', protocol2_avg_apy = ''0.00%'', protocol2_pools = 0,
             difference = ''0.00%'', winner = ''compound''\<rparr>, Map.empty)
   \<and> map_sum id fst
        (get_yield_comparison cfg300 (ok_env 0 [aave_pool \<lparr>pool_apy := Null\<rparr>])
           (ok_env 0 [aave_pool \<lparr>pool_apy := Null\<rparr>]) ''aave'' ''compound'' Map.empty)
      = Inr (Compare_failed ''aave'' ''compound'' ValueError)"
proof -
  let ?p = "aave_pool \<lparr>pool_apy := Null\<rparr>"
  let ?c1 = "cache_result 0 (protocol_yields_key ''aave'' 5) [protocol_row ''aave'' ?p] 300
               (Map.empty :: (string, protocol_row list) cache)"
  have down: "fetch_failed (reply (down_env 0 :: pool list env))"
    by (simp add: fetch_failed_def fetch_json_def down_env_def)
  have miss: "truthy_list (fst (get_cached_result t k
      (Map.empty :: (string, protocol_row list) cache))) = None" for t k
    by (simp add: get_cached_result_def truthy_list_def)
  have left: "snd (get_cached_result t k (Map.empty :: (string, protocol_row list) cache))
      = Map.empty" for t k
    by (simp add: get_cached_result_def)
  have failed: "get_yield_comparison cfg300 (down_env 0) (down_env 0) ''aave'' ''compound''
      Map.empty
    = Inr (Compared
            \<lparr>protocol1 = ''aave'', protocol1_avg_apy = ''0.00%'', protocol1_pools = 0,
             protocol2 = ''compound'', protocol2_avg_apy = ''0.00%'', protocol2_pools = 0,
             difference = ''0.00%'', winner = ''compound''\<rparr>, Map.empty)"
    using get_yield_comparison_on_failure
      [of "down_env 0" "''aave''" Map.empty "down_env 0" "''compound''" cfg300]
    by (simp add: miss left down)
  have rows: "protocol_yields_results ''aave'' 5 [?p] = Inr [protocol_row ''aave'' ?p]"
    "protocol_yields_results ''compound'' 5 [?p] = Inr []"
    by code_simp+
  have mean: "compare_means ''aave'' [protocol_row ''aave'' ?p] ''compound'' [] = Inl ValueError"
    by code_simp
  have one: "get_yield_by_protocol cfg300 (ok_env 0 [?p]) ''aave'' 5 Map.empty
      = Inr ([protocol_row ''aave'' ?p], ?c1)"
    by (simp add: get_yield_by_protocol_miss miss left rows ok_env_def cfg300_def
        fetch_json_def)
  have other: "truthy_list (fst (get_cached_result 0 (protocol_yields_key ''compound'' 5) ?c1))
      = None"
    by (simp add: get_cached_result_def cache_result_def truthy_list_def
        protocol_yields_key_def)
  have two: "\<exists>c2. get_yield_by_protocol cfg300 (ok_env 0 [?p]) ''compound'' 5 ?c1
      = Inr ([], c2)"
    using other
    by (simp add: get_yield_by_protocol_miss rows ok_env_def fetch_json_def)
  then obtain c2 where "get_yield_by_protocol cfg300 (ok_env 0 [?p]) ''compound'' 5 ?c1
      = Inr ([], c2)" by blast
  from get_yield_comparison_on_exception [OF one this mean]
  have "map_sum id fst
        (get_yield_comparison cfg300 (ok_env 0 [?p]) (ok_env 0 [?p]) ''aave'' ''compound''
           Map.empty)
      = Inr (Compare_failed ''aave'' ''compound'' ValueError)"
    by simp
  with failed show ?thesis by simp
qed

theorem failures_give_sentinels_witness:
  "get_top_yields cfg300 (down_env 0) 5 1000000 None Map.empty = Inr ([], Map.empty)
   \<and> get_yield_by_protocol cfg300 (down_env 0) ''aave'' 5 Map.empty = Inr ([], Map.empty)
   \<and> get_yield_by_chain cfg300 (down_env 0) ''aave'' 5 Map.empty = Inr ([], Map.empty)
   \<and> get_yield_recommendations (reply (down_env 0)) ''low'' 1000000 5 = Inr []
   \<and> get_token_price (down_env 0) ''tok'' Map.empty = Inr (None, Map.empty)
   \<and> get_market_sentiment (down_env 0) Map.empty = Inr (None, Map.empty)
   \<and> get_token_sentiment (down_env 0) ''tok'' Map.empty = Inr (None, Map.empty)
   \<and> get_trading_signals (down_env 0) ''tok'' Map.empty = Inr (None, Map.empty)
   \<and> get_yield_entry_recommendation (down_env 0) (down_env 0) ''tok'' Map.empty
       = Inr (None, Map.empty)
   \<and> get_yield_comparison cfg300 (down_env 0) (down_env 0) ''aave'' ''aave'' Map.empty
       = Inr (Compared
            \<lparr>protocol1 = ''aave'', protocol1_avg_apy = ''0.00%'', protocol1_pools = 0,
             protocol2 = ''aave'', protocol2_avg_apy = ''0.00%'', protocol2_pools = 0,
             difference = ''0.00%'', winner = ''aave''\<rparr>, Map.empty)"
proof -
  have down: "fetch_failed (reply (down_env 0 :: 'b env))"
    by (simp add: fetch_failed_def fetch_json_def down_env_def)
  have absent: "fst (get_cached_result t k (Map.empty :: (string, 'v) cache)) = None" for t k
    by (simp add: get_cached_result_def)
  have left: "snd (get_cached_result t k (Map.empty :: (string, 'v) cache)) = Map.empty"
    for t k
    by (simp add: get_cached_result_def)
  note all = failures_give_sentinels
    [where cfg = cfg300 and e = "down_env 0" and e' = "down_env 0" and limit = 5
       and min_tvl = 1000000 and chain = None and ct = Map.empty and cp = Map.empty
       and cc = Map.empty and name = "''aave''" and name' = "''aave''"
       and risk_tolerance = "''low''" and eq = "down_env 0" and token = "''tok''"
       and cq = Map.empty and em = "down_env 0" and cm = Map.empty
       and ed = "down_env 0" and ed' = "down_env 0" and cs = Map.empty
       and cs' = Map.empty and cs'' = Map.empty and td = None and ts = None
       and ys = "[]" and ys' = "[]" and cp' = Map.empty and cp'' = Map.empty
       and ex = ValueError]
  from all have sent: "get_token_sentiment (down_env 0) ''tok'' Map.empty
      = Inr (None, Map.empty)"
    by (simp add: down absent left)
  from all sent have sigs: "get_trading_signals (down_env 0) ''tok'' Map.empty
      = Inr (None, Map.empty)"
    by simp
  from all sent sigs have "get_yield_entry_recommendation (down_env 0) (down_env 0) ''tok''
      Map.empty = Inr (None, Map.empty)"
    by simp
  with all sent sigs show ?thesis
    by (simp add: down absent left truthy_list_def)
qed



section \<open>get_yield_comparison: properties\<close>

lemma protocol_yields_key_inject:
  "protocol_yields_key p limit = protocol_yields_key q limit \<longleftrightarrow> p = q"
  by (simp add: protocol_yields_key_def)

lemma get_yield_by_protocol_rows:
  "\<exists>c'. get_yield_by_protocol cfg e p limit c = Inr (yields_served e p limit c, c')"
proof (cases "truthy_list (fst (get_cached_result (t_get e) (protocol_yields_key p limit) c))")
  case None
  then show ?thesis
    by (auto simp: get_yield_by_protocol_miss yields_served_def fetched_protocol_rows_def
        split: sum.splits option.splits)
next
  case (Some rows)
  then show ?thesis
    by (simp add: get_yield_by_protocol_hit yields_served_def)
qed

lemma get_yield_by_protocol_other_key:
  assumes "get_yield_by_protocol cfg e p limit c = Inr (rows, c')"
    and "k \<noteq> protocol_yields_key p limit"
  shows "c' k = c k"
proof (cases "truthy_list (fst (get_cached_result (t_get e) (protocol_yields_key p limit) c))")
  case None
  with assms show ?thesis
    by (auto simp: get_yield_by_protocol_miss get_cached_result_def cache_result_def
        split: sum.splits option.splits if_splits)
next
  case (Some rows)
  with assms show ?thesis
    by (auto simp: get_yield_by_protocol_hit get_cached_result_def
        split: option.splits if_splits)
qed

lemma yields_served_cong:
  "c' (protocol_yields_key p limit) = c (protocol_yields_key p limit) \<Longrightarrow>
   yields_served e p limit c' = yields_served e p limit c"
  by (auto simp: yields_served_def get_cached_result_def split: option.splits)

lemma yields_served_again:
  assumes "get_yield_by_protocol cfg e p limit c = Inr (rows, c')"
  shows "yields_served e p limit c' = yields_served e p limit c"
proof (cases "truthy_list (fst (get_cached_result (t_get e) (protocol_yields_key p limit) c))")
  case None
  with assms show ?thesis
    by (auto simp: get_yield_by_protocol_miss yields_served_def fetched_protocol_rows_def
        get_cached_result_def cache_result_def truthy_list_def
        split: sum.splits option.splits if_splits)
next
  case (Some rows)
  with assms show ?thesis
    by (auto simp: get_yield_by_protocol_hit yields_served_def get_cached_result_def
        truthy_list_def split: option.splits if_splits)
qed

lemma yields_served_after:
  assumes "get_yield_by_protocol cfg e q limit c = Inr (rows, c')"
  shows "yields_served e p limit c' = yields_served e p limit c"
proof (cases "p = q")
  case True
  with assms show ?thesis by (simp add: yields_served_again)
next
  case False
  then have "protocol_yields_key p limit \<noteq> protocol_yields_key q limit"
    by (simp add: protocol_yields_key_inject)
  from get_yield_by_protocol_other_key [OF assms this] show ?thesis
    by (rule yields_served_cong)
qed

lemma get_yield_comparison_served:
  "\<exists>c'. get_yield_comparison cfg e e p q c
     = Inr (case compare_means p (yields_served e p 5 c) q (yields_served e q 5 c) of
              Inr r \<Rightarrow> Compared r | Inl ex \<Rightarrow> Compare_failed p q ex, c')"
proof -
  obtain c1 where one: "get_yield_by_protocol cfg e p 5 c = Inr (yields_served e p 5 c, c1)"
    using get_yield_by_protocol_rows by blast
  obtain c2 where "get_yield_by_protocol cfg e q 5 c1 = Inr (yields_served e q 5 c1, c2)"
    using get_yield_by_protocol_rows by blast
  with yields_served_after [OF one, of q]
  have two: "get_yield_by_protocol cfg e q 5 c1 = Inr (yields_served e q 5 c, c2)" by simp
  show ?thesis
    by (auto simp: get_yield_comparison_def one two bind_def try_except_any split: sum.splits)
qed

lemma compare_means_Inr:
  "compare_means p ys q zs = Inr r \<longleftrightarrow>
   (\<exists>a b. mean_apy ys = Inr a \<and> mean_apy zs = Inr b
      \<and> r = \<lparr>protocol1 = p, protocol1_avg_apy = format_percentage (Some a),
             protocol1_pools = length ys, protocol2 = q,
             protocol2_avg_apy = format_percentage (Some b), protocol2_pools = length zs,
             difference = format_percentage (Some (a - b)),
             winner = (if b < a then p else q)\<rparr>)"
  by (auto simp: compare_means_def bind_eq_Inr)


text \<open>
  C3. With the same listing and clock readings for every request, when the comparison of
  \<open>p\<close> with \<open>q\<close> succeeds so does that of \<open>q\<close> with \<open>p\<close>; the two differences are
  the displayed values of \<open>a - b\<close> and \<open>b - a\<close> for the two mean APYs \<open>a\<close> and \<open>b\<close>,
  and read back as numbers they are each other's negation; the winner is the first
  operand only when its mean is strictly higher, so with equal means each comparison
  names its second operand.
\<close>

theorem comparison_antisymmetric_ties_to_second:
  assumes "get_yield_comparison cfg e e p q c = Inr (Compared r, c')"
  shows "\<exists>r' c'' a b.
      get_yield_comparison cfg e e q p c = Inr (Compared r', c'')
    \<and> mean_apy (yields_served e p 5 c) = Inr a
    \<and> mean_apy (yields_served e q 5 c) = Inr b
    \<and> difference r = format_percentage (Some (a - b))
    \<and> difference r' = format_percentage (Some (b - a))
    \<and> py_float (strip_percent (difference r)) = Inr (shown2 (a - b))
    \<and> py_float (strip_percent (difference r')) = Inr (- shown2 (a - b))
    \<and> winner r = (if b < a then p else q)
    \<and> winner r' = (if a < b then q else p)
    \<and> (a = b \<longrightarrow> winner r = q \<and> winner r' = p)"
proof -
  let ?ys = "yields_served e p 5 c" and ?zs = "yields_served e q 5 c"
  from get_yield_comparison_served [of cfg e p q c] assms
  have "compare_means p ?ys q ?zs = Inr r"
    by (auto split: sum.splits)
  then obtain a b where ab: "mean_apy ?ys = Inr a" "mean_apy ?zs = Inr b"
    and r: "r = \<lparr>protocol1 = p, protocol1_avg_apy = format_percentage (Some a),
             protocol1_pools = length ?ys, protocol2 = q,
             protocol2_avg_apy = format_percentage (Some b), protocol2_pools = length ?zs,
             difference = format_percentage (Some (a - b)),
             winner = (if b < a then p else q)\<rparr>"
    unfolding compare_means_Inr by blast
  define r' where "r' = \<lparr>protocol1 = q, protocol1_avg_apy = format_percentage (Some b),
             protocol1_pools = length ?zs, protocol2 = p,
             protocol2_avg_apy = format_percentage (Some a), protocol2_pools = length ?ys,
             difference = format_percentage (Some (b - a)),
             winner = (if a < b then q else p)\<rparr>"
  from ab have "compare_means q ?zs p ?ys = Inr r'"
    unfolding compare_means_Inr r'_def by blast
  with get_yield_comparison_served [of cfg e q p c]
  obtain c'' where reversed: "get_yield_comparison cfg e e q p c = Inr (Compared r', c'')"
    by auto
  have "shown2 (b - a) = - shown2 (a - b)"
    using shown2_minus [of "a - b"] by simp
  then have readback: "py_float (strip_percent (difference r')) = Inr (- shown2 (a - b))"
    "py_float (strip_percent (difference r)) = Inr (shown2 (a - b))"
    by (simp_all add: r r'_def float_of_percentage)
  have "difference r = format_percentage (Some (a - b))"
    "difference r' = format_percentage (Some (b - a))"
    "winner r = (if b < a then p else q)" "winner r' = (if a < b then q else p)"
    by (simp_all add: r r'_def)
  with reversed ab readback show ?thesis
    by (intro exI [of _ r'] exI [of _ c''] exI [of _ a] exI [of _ b]) simp
qed

theorem comparison_antisymmetric_ties_to_second_witness:
  "(\<exists>r c' r' c''.
      get_yield_comparison cfg300 (ok_env 0 [aave_pool, compound_pool])
        (ok_env 0 [aave_pool, compound_pool]) ''aave'' ''compound'' Map.empty
        = Inr (Compared r, c')
    \<and> difference r = ''5.25%'' \<and> winner r = ''aave''
    \<and> get_yield_comparison cfg300 (ok_env 0 [aave_pool, compound_pool])
        (ok_env 0 [aave_pool, compound_pool]) ''compound'' ''aave'' Map.empty
        = Inr (Compared r', c'')
    \<and> py_float (strip_percent (difference r')) = Inr (- 5.25))
   \<and> (\<exists>r c' r' c''.
      get_yield_comparison cfg300 (ok_env 0 [aave_pool, compound_pool])
        (ok_env 0 [aave_pool, compound_pool]) ''uniswap'' ''curve'' Map.empty
        = Inr (Compared r, c')
    \<and> winner r = ''curve''
    \<and> get_yield_comparison cfg300 (ok_env 0 [aave_pool, compound_pool])
        (ok_env 0 [aave_pool, compound_pool]) ''curve'' ''uniswap'' Map.empty
        = Inr (Compared r', c'')
    \<and> winner r' = ''uniswap'')"
proof -
  let ?e = "ok_env 0 [aave_pool, compound_pool]"
  have rows: "protocol_yields_results ''aave'' 5 [aave_pool, compound_pool]
        = Inr [protocol_row ''aave'' aave_pool]"
    "protocol_yields_results ''compound'' 5 [aave_pool, compound_pool]
        = Inr [protocol_row ''compound'' compound_pool]"
    "protocol_yields_results ''uniswap'' 5 [aave_pool, compound_pool] = Inr []"
    "protocol_yields_results ''curve'' 5 [aave_pool, compound_pool] = Inr []"
    by code_simp+
  have served: "yields_served ?e ''aave'' 5 Map.empty = [protocol_row ''aave'' aave_pool]"
    "yields_served ?e ''compound'' 5 Map.empty = [protocol_row ''compound'' compound_pool]"
    "yields_served ?e ''uniswap'' 5 Map.empty = []"
    "yields_served ?e ''curve'' 5 Map.empty = []"
    by (simp_all add: yields_served_def get_cached_result_def truthy_list_def
        fetched_protocol_rows_def fetch_json_def ok_env_def rows)
  have means: "compare_means ''aave'' [protocol_row ''aave'' aave_pool]
        ''compound'' [protocol_row ''compound'' compound_pool]
      = Inr \<lparr>protocol1 = ''aave'', protocol1_avg_apy = ''8.50%'', protocol1_pools = 1,
             protocol2 = ''compound'', protocol2_avg_apy = ''3.25%'', protocol2_pools = 1,
             difference = ''5.25%'', winner = ''aave''\<rparr>"
    by code_simp
  have tie: "compare_means ''uniswap'' [] ''curve'' []
      = Inr \<lparr>protocol1 = ''uniswap'', protocol1_avg_apy = ''0.00%'', protocol1_pools = 0,
             protocol2 = ''curve'', protocol2_avg_apy = ''0.00%'', protocol2_pools = 0,
             difference = ''0.00%'', winner = ''curve''\<rparr>"
    by code_simp
  have read: "py_float (strip_percent ''5.25%'') = Inr 5.25"
    by code_simp
  have zero: "mean_apy [] = Inr 0"
    by (simp add: mean_apy_def)
  from get_yield_comparison_served [of cfg300 ?e "''aave''" "''compound''" Map.empty]
  obtain c1 where one: "get_yield_comparison cfg300 ?e ?e ''aave'' ''compound'' Map.empty
      = Inr (Compared \<lparr>protocol1 = ''aave'', protocol1_avg_apy = ''8.50%'',
             protocol1_pools = 1, protocol2 = ''compound'', protocol2_avg_apy = ''3.25%'',
             protocol2_pools = 1, difference = ''5.25%'', winner = ''aave''\<rparr>, c1)"
    by (auto simp: served means)
  from comparison_antisymmetric_ties_to_second [OF one] read
  have first: "\<exists>r c' r' c''.
      get_yield_comparison cfg300 ?e ?e ''aave'' ''compound'' Map.empty = Inr (Compared r, c')
    \<and> difference r = ''5.25%'' \<and> winner r = ''aave''
    \<and> get_yield_comparison cfg300 ?e ?e ''compound'' ''aave'' Map.empty
        = Inr (Compared r', c'')
    \<and> py_float (strip_percent (difference r')) = Inr (- 5.25)"
    using one by fastforce
  from get_yield_comparison_served [of cfg300 ?e "''uniswap''" "''curve''" Map.empty]
  obtain c2 where two: "get_yield_comparison cfg300 ?e ?e ''uniswap'' ''curve'' Map.empty
      = Inr (Compared \<lparr>protocol1 = ''uniswap'', protocol1_avg_apy = ''0.00%'',
             protocol1_pools = 0, protocol2 = ''curve'', protocol2_avg_apy = ''0.00%'',
             protocol2_pools = 0, difference = ''0.00%'', winner = ''curve''\<rparr>, c2)"
    by (auto simp: served tie)
  from comparison_antisymmetric_ties_to_second [OF two]
  have second: "\<exists>r c' r' c''.
      get_yield_comparison cfg300 ?e ?e ''uniswap'' ''curve'' Map.empty = Inr (Compared r, c')
    \<and> winner r = ''curve''
    \<and> get_yield_comparison cfg300 ?e ?e ''curve'' ''uniswap'' Map.empty
        = Inr (Compared r', c'')
    \<and> winner r' = ''uniswap''"
    using two by (fastforce simp: served zero)
  from first second show ?thesis by blast
qed

end
